theory Spec2Isabelle
  imports Main "HOL-Library.AList"
begin

section \<open>JSON-compatible values and the Python operations the code applies to them\<close>

text \<open>
  Filter documents are JSON-compatible Python values. A dict is an association list in
  insertion order (keys are strings and occur once); numbers are Python ints.
\<close>

datatype json =
    JNull
  | JBool bool
  | JInt int
  | JStr string
  | JList "json list"
  | JDict "(string \<times> json) list"

type_synonym dict = "(string \<times> json) list"

datatype py_error =
    TypeError
  | KeyError
  | AttributeError
  | ValueError
  | ValidationError
  | IndexError
  | DatabaseError
  | DoesNotExist
  | CHQueryErrorTooManySimultaneousQueries
  | PyException string

text \<open>Python truthiness (\<^verbatim>\<open>if x\<close>, \<^verbatim>\<open>x or y\<close>).\<close>

fun truthy :: "json \<Rightarrow> bool" where
  "truthy JNull = False"
| "truthy (JBool b) = b"
| "truthy (JInt i) = (i \<noteq> 0)"
| "truthy (JStr s) = (s \<noteq> [])"
| "truthy (JList xs) = (xs \<noteq> [])"
| "truthy (JDict d) = (d \<noteq> [])"

definition py_or :: "json \<Rightarrow> json \<Rightarrow> json" where
  "py_or a b = (if truthy a then a else b)"

text \<open>\<^verbatim>\<open>d.get(k)\<close>, \<^verbatim>\<open>d.get(k, default)\<close>, \<^verbatim>\<open>k in d\<close> and \<^verbatim>\<open>d.pop(k, None)\<close> on a dict.\<close>

definition dict_get :: "dict \<Rightarrow> string \<Rightarrow> json" where
  "dict_get d k = (case map_of d k of None \<Rightarrow> JNull | Some v \<Rightarrow> v)"

definition dict_get_default :: "dict \<Rightarrow> string \<Rightarrow> json \<Rightarrow> json" where
  "dict_get_default d k dflt = (case map_of d k of None \<Rightarrow> dflt | Some v \<Rightarrow> v)"

definition has_key :: "dict \<Rightarrow> string \<Rightarrow> bool" where
  "has_key d k = (map_of d k \<noteq> None)"

definition dict_pop :: "string \<Rightarrow> dict \<Rightarrow> dict" where
  "dict_pop k d = AList.delete k d"

text \<open>
  \<^verbatim>\<open>x.get(k)\<close> and \<^verbatim>\<open>x.get(k, default)\<close> on an arbitrary value: only a dict has
  the method, everything else raises AttributeError.
\<close>

fun py_get :: "json \<Rightarrow> string \<Rightarrow> py_error + json" where
  "py_get (JDict d) k = Inr (dict_get d k)"
| "py_get _ k = Inl AttributeError"

fun py_get_default :: "json \<Rightarrow> string \<Rightarrow> json \<Rightarrow> py_error + json" where
  "py_get_default (JDict d) k dflt = Inr (dict_get_default d k dflt)"
| "py_get_default _ k dflt = Inl AttributeError"

text \<open>\<^verbatim>\<open>x[k]\<close> with a string key: KeyError on a dict without it, TypeError elsewhere.\<close>

fun py_item :: "json \<Rightarrow> string \<Rightarrow> py_error + json" where
  "py_item (JDict d) k = (case map_of d k of None \<Rightarrow> Inl KeyError | Some v \<Rightarrow> Inr v)"
| "py_item _ k = Inl TypeError"

text \<open>
  \<^verbatim>\<open>x[0]\<close> on a truthy value: the head of a list, the first character of a string,
  KeyError on a dict (its keys are strings), TypeError on a number.
\<close>

fun py_first :: "json \<Rightarrow> py_error + json" where
  "py_first (JList (x # xs)) = Inr x"
| "py_first (JList []) = Inl IndexError"
| "py_first (JStr (c # cs)) = Inr (JStr [c])"
| "py_first (JStr []) = Inl IndexError"
| "py_first (JDict d) = Inl KeyError"
| "py_first _ = Inl TypeError"

text \<open>\<^verbatim>\<open>len(x)\<close>: defined on lists, strings and dicts.\<close>

fun py_len :: "json \<Rightarrow> py_error + nat" where
  "py_len (JList xs) = Inr (length xs)"
| "py_len (JStr s) = Inr (length s)"
| "py_len (JDict d) = Inr (length d)"
| "py_len _ = Inl TypeError"

text \<open>\<^verbatim>\<open>for f in x\<close>: the elements of a list, the characters of a string, the keys of a dict.\<close>

fun py_iter :: "json \<Rightarrow> py_error + json list" where
  "py_iter (JList xs) = Inr xs"
| "py_iter (JStr s) = Inr (map (\<lambda>c. JStr [c]) s)"
| "py_iter (JDict d) = Inr (map (\<lambda>kv. JStr (fst kv)) d)"
| "py_iter _ = Inl TypeError"

text \<open>
  \<^verbatim>\<open>a + b\<close> on JSON values: list concatenation, string concatenation, integer addition
  (a bool counts as 0 or 1); every other pairing raises TypeError.
\<close>

fun py_add :: "json \<Rightarrow> json \<Rightarrow> py_error + json" where
  "py_add (JList xs) (JList ys) = Inr (JList (xs @ ys))"
| "py_add (JStr s) (JStr t) = Inr (JStr (s @ t))"
| "py_add (JInt i) (JInt j) = Inr (JInt (i + j))"
| "py_add (JInt i) (JBool b) = Inr (JInt (i + (if b then 1 else 0)))"
| "py_add (JBool a) (JInt j) = Inr (JInt ((if a then 1 else 0) + j))"
| "py_add (JBool a) (JBool b) = Inr (JInt ((if a then 1 else 0) + (if b then 1 else 0)))"
| "py_add _ _ = Inl TypeError"

text \<open>\<^verbatim>\<open>{**x, ...}\<close>: \<^verbatim>\<open>x\<close> must be a mapping.\<close>

fun py_spread :: "json \<Rightarrow> py_error + dict" where
  "py_spread (JDict d) = Inr d"
| "py_spread _ = Inl TypeError"

text \<open>
  \<^verbatim>\<open>a == b\<close> on JSON values: dicts compare by their items whatever the order, lists
  element by element, and a bool equals the int 0 or 1.
\<close>

fun py_eq :: "json \<Rightarrow> json \<Rightarrow> bool"
  and py_eq_list :: "json list \<Rightarrow> json list \<Rightarrow> bool"
  and py_items_in :: "dict \<Rightarrow> dict \<Rightarrow> bool" where
  "py_eq JNull JNull = True"
| "py_eq (JBool a) (JBool b) = (a = b)"
| "py_eq (JBool a) (JInt j) = ((if a then 1 else 0) = j)"
| "py_eq (JInt i) (JBool b) = (i = (if b then 1 else 0))"
| "py_eq (JInt i) (JInt j) = (i = j)"
| "py_eq (JStr s) (JStr t) = (s = t)"
| "py_eq (JList xs) (JList ys) = py_eq_list xs ys"
| "py_eq (JDict a) (JDict b) = (length a = length b \<and> py_items_in a b)"
| "py_eq _ _ = False"
| "py_eq_list [] [] = True"
| "py_eq_list (x # xs) (y # ys) = (py_eq x y \<and> py_eq_list xs ys)"
| "py_eq_list _ _ = False"
| "py_items_in [] b = True"
| "py_items_in ((k, v) # a) b =
     ((case map_of b k of None \<Rightarrow> False | Some v' \<Rightarrow> py_eq v v') \<and> py_items_in a b)"

section \<open>Schema constants\<close>

text \<open>
  Modelled from the spec: the string enums of \<^verbatim>\<open>posthog.schema\<close> (PropertyOperator,
  PropertyFilterType, FilterLogicalOperator) are missing from the modules modelled here; the
  spec fixes their wire values (\<^verbatim>\<open>AND\<close>, \<^verbatim>\<open>exact\<close>, \<^verbatim>\<open>gt\<close>, \<^verbatim>\<open>recording\<close>,
  \<^verbatim>\<open>log_entry\<close>), and a string enum compares equal to its value.
\<close>

definition PropertyOperator_EXACT :: json where
  "PropertyOperator_EXACT = JStr ''exact''"

definition PropertyOperator_GT :: json where
  "PropertyOperator_GT = JStr ''gt''"

definition PropertyFilterType_RECORDING :: json where
  "PropertyFilterType_RECORDING = JStr ''recording''"

definition PropertyFilterType_LOG_ENTRY :: json where
  "PropertyFilterType_LOG_ENTRY = JStr ''log_entry''"

definition FilterLogicalOperator_AND :: json where
  "FilterLogicalOperator_AND = JStr ''AND''"

definition DEFAULT_RECORDING_FILTERS :: dict where
  "DEFAULT_RECORDING_FILTERS =
     [(''date_from'', JStr ''-3d''),
      (''date_to'', JNull),
      (''filter_test_accounts'', JBool False),
      (''duration'',
         JList [JDict [(''type'', PropertyFilterType_RECORDING),
                       (''key'', JStr ''active_seconds''),
                       (''value'', JInt 5),
                       (''operator'', PropertyOperator_GT)]]),
      (''order'', JStr ''start_time'')]"

section \<open>The filter normalizer\<close>

text \<open>The three parts of \<^verbatim>\<open>convert_legacy_filters_to_universal_filters\<close> that build lists.\<close>

definition log_level_filters :: "dict \<Rightarrow> json list" where
  "log_level_filters filters =
     (if truthy (dict_get filters ''console_logs'')
      then [JDict [(''key'', JStr ''level''),
                   (''value'', dict_get filters ''console_logs''),
                   (''operator'', PropertyOperator_EXACT),
                   (''type'', PropertyFilterType_LOG_ENTRY)]]
      else [])"

definition log_query_filters :: "dict \<Rightarrow> json list" where
  "log_query_filters filters =
     (if truthy (dict_get filters ''console_search_query'')
      then [JDict [(''key'', JStr ''message''),
                   (''value'', JList [dict_get filters ''console_search_query'']),
                   (''operator'', PropertyOperator_EXACT),
                   (''type'', PropertyFilterType_LOG_ENTRY)]]
      else [])"

definition legacy_duration :: "dict \<Rightarrow> py_error + json list" where
  "legacy_duration filters =
     (if truthy (dict_get filters ''session_recording_duration'')
      then (case py_spread (dict_get filters ''session_recording_duration'') of
              Inl e \<Rightarrow> Inl e
            | Inr base \<Rightarrow>
                (case py_get_default (dict_get_default filters ''session_recording_duration'' (JDict []))
                        ''key'' (JStr ''active_seconds'') of
                   Inl e \<Rightarrow> Inl e
                 | Inr inner_key \<Rightarrow>
                     Inr [JDict (AList.update ''key''
                            (dict_get_default filters ''duration_type_filter'' inner_key) base)]))
      else Inr [])"

text \<open>\<^verbatim>\<open>events + actions + properties + log_level_filters + log_query_filters\<close>, left to right.\<close>

definition group_values :: "dict \<Rightarrow> py_error + json" where
  "group_values filters =
     (case py_add (dict_get_default filters ''events'' (JList []))
                  (dict_get_default filters ''actions'' (JList [])) of
        Inl e \<Rightarrow> Inl e
      | Inr ea \<Rightarrow>
     (case py_add ea (dict_get_default filters ''properties'' (JList [])) of
        Inl e \<Rightarrow> Inl e
      | Inr eap \<Rightarrow>
     (case py_add eap (JList (log_level_filters filters)) of
        Inl e \<Rightarrow> Inl e
      | Inr eapl \<Rightarrow> py_add eapl (JList (log_query_filters filters)))))"

definition convert_legacy_filters_to_universal_filters :: "dict option \<Rightarrow> py_error + dict" where
  "convert_legacy_filters_to_universal_filters arg =
     (let filters = (case arg of None \<Rightarrow> [] | Some d \<Rightarrow> d) in
      if filters = [] then Inr []
      else
        (case legacy_duration filters of
           Inl e \<Rightarrow> Inl e
         | Inr duration \<Rightarrow>
        (case group_values filters of
           Inl e \<Rightarrow> Inl e
         | Inr vals \<Rightarrow>
             Inr [(''date_from'',
                     py_or (dict_get filters ''date_from'')
                           (dict_get DEFAULT_RECORDING_FILTERS ''date_from'')),
                  (''date_to'',
                     py_or (dict_get filters ''date_to'')
                           (dict_get DEFAULT_RECORDING_FILTERS ''date_to'')),
                  (''filter_test_accounts'',
                     dict_get_default filters ''filter_test_accounts''
                       (dict_get DEFAULT_RECORDING_FILTERS ''filter_test_accounts'')),
                  (''duration'',
                     py_or (JList duration) (dict_get DEFAULT_RECORDING_FILTERS ''duration'')),
                  (''filter_group'',
                     JDict [(''type'', FilterLogicalOperator_AND),
                            (''values'',
                               JList [JDict [(''type'', FilterLogicalOperator_AND),
                                             (''values'', vals)]])]),
                  (''order'', dict_get DEFAULT_RECORDING_FILTERS ''order'')])))"

section \<open>The query translator\<close>

text \<open>
  A having-predicate is either the \<^verbatim>\<open>RecordingPropertyFilter(key, operator, value)\<close>
  built by \<^verbatim>\<open>asRecordingPropertyFilter\<close> or a leaf filter appended as it is.
\<close>

datatype predicate =
    RecordingPropertyFilter json json json
  | RawFilter json

text \<open>The five lists the translator fills.\<close>

record decomposition =
  events :: "json list"
  actions :: "json list"
  properties :: "json list"
  console_log_filters :: "json list"
  having_predicates :: "predicate list"

text \<open>The keyword arguments of \<^verbatim>\<open>RecordingsQuery(...)\<close>, which the validated query holds.\<close>

record recordings_query =
  rq_order :: json
  rq_date_from :: json
  rq_date_to :: json
  rq_properties :: "json list"
  rq_events :: "json list"
  rq_actions :: "json list"
  rq_console_log_filters :: "json list"
  rq_having_predicates :: "predicate list"
  rq_filter_test_accounts :: json
  rq_operand :: json

record playlist =
  pl_id :: nat
  pl_short_id :: string
  pl_team :: nat
  pl_filters :: dict
  pl_last_counted_at :: "int option"

datatype log_entry =
    ConvertFailed dict py_error decomposition json json
  | PlaylistMissing nat "string option"
  | CountFailed nat "string option" "dict option" "recordings_query option" py_error

text \<open>
  What the modules modelled here import from elsewhere is a parameter: the pydantic validation of
  \<^verbatim>\<open>RecordingPropertyFilter\<close> and \<^verbatim>\<open>RecordingsQuery\<close> (\<^verbatim>\<open>posthog.schema\<close>),
  \<^verbatim>\<open>filter_from_params_to_query\<close> and \<^verbatim>\<open>list_recordings_from_query\<close>
  (\<^verbatim>\<open>session_recording_api\<close>), \<^verbatim>\<open>datetime.fromisoformat\<close> and \<^verbatim>\<open>isoformat\<close> (times
  are microseconds), the cache key prefix and the cooldown setting.
\<close>

record env =
  RecordingPropertyFilter_ok :: "json \<Rightarrow> json \<Rightarrow> json \<Rightarrow> bool"
  RecordingsQuery_ok :: "recordings_query \<Rightarrow> bool"
  filter_from_params_to_query :: "dict \<Rightarrow> py_error + recordings_query"
  list_recordings_from_query :: "recordings_query \<Rightarrow> nat \<Rightarrow> py_error + (string list \<times> bool)"
  fromisoformat :: "json \<Rightarrow> py_error + int"
  isoformat :: "int \<Rightarrow> string"
  PLAYLIST_COUNT_REDIS_PREFIX :: string
  PLAYLIST_COUNTER_PROCESSING_COOLDOWN_SECONDS :: int

text \<open>
  The world a task invocation runs in: the playlist table, the key-value cache (a value is
  the JSON document that \<^verbatim>\<open>json.dumps\<close> wrote and \<^verbatim>\<open>json.loads\<close> reads back), the
  counters, the queries handed to the engine, the log, and the clock as the sequence of
  its readings.
\<close>

record world =
  db :: "nat \<Rightarrow> playlist option"
  redis :: "string \<Rightarrow> json option"
  redis_ttl :: "string \<Rightarrow> nat option"
  metrics :: "string \<Rightarrow> nat"
  engine_executions :: "recordings_query list"
  logged :: "log_entry list"
  clock :: "nat \<Rightarrow> int"
  clock_reads :: nat

definition inc :: "string \<Rightarrow> world \<Rightarrow> world" where
  "inc name w = w\<lparr>metrics := (metrics w)(name := Suc (metrics w name))\<rparr>"

text \<open>\<^verbatim>\<open>playlist.save(update_fields=[...])\<close> writes one column of the playlist's row.\<close>

definition save_filters :: "playlist \<Rightarrow> world \<Rightarrow> py_error + world" where
  "save_filters p w =
     (case db w (pl_id p) of
        None \<Rightarrow> Inl DatabaseError
      | Some row \<Rightarrow> Inr (w\<lparr>db := (db w)(pl_id p \<mapsto> row\<lparr>pl_filters := pl_filters p\<rparr>)\<rparr>))"

definition save_last_counted_at :: "playlist \<Rightarrow> world \<Rightarrow> py_error + world" where
  "save_last_counted_at p w =
     (case db w (pl_id p) of
        None \<Rightarrow> Inl DatabaseError
      | Some row \<Rightarrow>
          Inr (w\<lparr>db := (db w)(pl_id p \<mapsto> row\<lparr>pl_last_counted_at := pl_last_counted_at p\<rparr>)\<rparr>))"

definition asRecordingPropertyFilter :: "env \<Rightarrow> json \<Rightarrow> py_error + predicate" where
  "asRecordingPropertyFilter en filter' =
     (case py_item filter' ''key'' of
        Inl e \<Rightarrow> Inl e
      | Inr k \<Rightarrow>
     (case py_item filter' ''operator'' of
        Inl e \<Rightarrow> Inl e
      | Inr operator \<Rightarrow>
     (case py_item filter' ''value'' of
        Inl e \<Rightarrow> Inl e
      | Inr v \<Rightarrow>
          if RecordingPropertyFilter_ok en k operator v
          then Inr (RecordingPropertyFilter k operator v)
          else Inl ValidationError)))"

text \<open>Lines 193 to 200: the children of the first group, or the error.\<close>

definition extract_filters :: "dict \<Rightarrow> py_error + json" where
  "extract_filters filters =
     (if \<not> truthy (dict_get filters ''filter_group'')
      then Inl (PyException ''Invalid universal filters'')
      else
        (case py_get (dict_get filters ''filter_group'') ''values'' of
           Inl e \<Rightarrow> Inl e
         | Inr vals \<Rightarrow>
             if \<not> truthy vals then Inl (PyException ''Invalid universal filters'')
             else
               (case py_first vals of
                  Inl e \<Rightarrow> Inl e
                | Inr group' \<Rightarrow>
                    if \<not> truthy group' then Inr (JList [])
                    else
                      (case py_get group' ''values'' of
                         Inl e \<Rightarrow> Inl e
                       | Inr group_vals \<Rightarrow>
                           if truthy group_vals then Inr group_vals else Inr (JList [])))))"

text \<open>Lines 210 to 212: the duration filter.\<close>

definition duration_predicates :: "env \<Rightarrow> dict \<Rightarrow> py_error + predicate list" where
  "duration_predicates en filters =
     (let duration_filters = dict_get_default filters ''duration'' (JList []) in
      if truthy duration_filters
      then (case py_len duration_filters of
              Inl e \<Rightarrow> Inl e
            | Inr n \<Rightarrow>
                if n > 0
                then (case py_first duration_filters of
                        Inl e \<Rightarrow> Inl e
                      | Inr d0 \<Rightarrow>
                          (case asRecordingPropertyFilter en d0 of
                             Inl e \<Rightarrow> Inl e
                           | Inr p \<Rightarrow> Inr [p]))
                else Inr [])
      else Inr [])"

text \<open>Lines 216 to 249: the body of the loop over the extracted filters.\<close>

definition pageview_event :: "dict \<Rightarrow> json" where
  "pageview_event f =
     JDict [(''id'', JStr ''$pageview''),
            (''name'', JStr ''$pageview''),
            (''type'', JStr ''events''),
            (''properties'',
               JList [JDict [(''type'', JStr ''event''),
                             (''key'', JStr ''$current_url''),
                             (''value'', dict_get f ''value''),
                             (''operator'', dict_get f ''operator'')]])]"

fun process_filter :: "json \<Rightarrow> decomposition \<Rightarrow> py_error + decomposition" where
  "process_filter (JDict f) acc =
     (let filter_type = dict_get f ''type'' in
      if filter_type = JStr ''events'' then Inr (acc\<lparr>events := events acc @ [JDict f]\<rparr>)
      else if filter_type = JStr ''actions'' then Inr (acc\<lparr>actions := actions acc @ [JDict f]\<rparr>)
      else if filter_type = JStr ''log_entry''
        then Inr (acc\<lparr>console_log_filters := console_log_filters acc @ [JDict f]\<rparr>)
      else if filter_type = JStr ''hogql''
        then Inr (acc\<lparr>properties := properties acc @ [JDict f]\<rparr>)
      else if filter_type = JStr ''recording'' then
        (if dict_get f ''key'' = JStr ''visited_page''
           then Inr (acc\<lparr>events := events acc @ [pageview_event f]\<rparr>)
         else if dict_get f ''key'' = JStr ''snapshot_source'' \<and> truthy (dict_get f ''value'')
           then Inr (acc\<lparr>having_predicates := having_predicates acc @ [RawFilter (JDict f)]\<rparr>)
         else Inr (acc\<lparr>properties := properties acc @ [JDict f]\<rparr>))
      else Inr (acc\<lparr>properties := properties acc @ [JDict f]\<rparr>))"
| "process_filter _ acc = Inl AttributeError"

fun process_filters :: "json list \<Rightarrow> decomposition \<Rightarrow> py_error + decomposition" where
  "process_filters [] acc = Inr acc"
| "process_filters (f # fs) acc =
     (case process_filter f acc of
        Inl e \<Rightarrow> Inl e
      | Inr acc' \<Rightarrow> process_filters fs acc')"

text \<open>Lines 192 to 249: from the universal document to the five lists.\<close>

definition decompose :: "env \<Rightarrow> dict \<Rightarrow> py_error + decomposition" where
  "decompose en filters =
     (case extract_filters filters of
        Inl e \<Rightarrow> Inl e
      | Inr extracted_filters \<Rightarrow>
     (case duration_predicates en filters of
        Inl e \<Rightarrow> Inl e
      | Inr hp \<Rightarrow>
     (case py_iter extracted_filters of
        Inl e \<Rightarrow> Inl e
      | Inr fs \<Rightarrow>
          process_filters fs
            \<lparr>events = [], actions = [], properties = [], console_log_filters = [],
             having_predicates = hp\<rparr>)))"

text \<open>Lines 251 to 280: the construction of the query, logged when validation fails.\<close>

definition build_query :: "env \<Rightarrow> dict \<Rightarrow> decomposition \<Rightarrow> world
    \<Rightarrow> (py_error + recordings_query) \<times> world" where
  "build_query en filters acc w =
     (case py_get_default (dict_get_default filters ''filter_group'' (JDict [])) ''type''
             FilterLogicalOperator_AND of
        Inl e \<Rightarrow> (Inl e, w)
      | Inr operand \<Rightarrow>
          (let q = \<lparr>rq_order = dict_get filters ''order'',
                    rq_date_from = dict_get filters ''date_from'',
                    rq_date_to = dict_get filters ''date_to'',
                    rq_properties = properties acc,
                    rq_events = events acc,
                    rq_actions = actions acc,
                    rq_console_log_filters = console_log_filters acc,
                    rq_having_predicates = having_predicates acc,
                    rq_filter_test_accounts = dict_get filters ''filter_test_accounts'',
                    rq_operand = operand\<rparr>
           in if RecordingsQuery_ok en q then (Inr q, w)
              else (Inl ValidationError,
                    w\<lparr>logged := logged w @
                        [ConvertFailed filters ValidationError acc
                           (dict_get filters ''filter_test_accounts'') operand]\<rparr>)))"

definition translate_universal :: "env \<Rightarrow> dict \<Rightarrow> world
    \<Rightarrow> (py_error + recordings_query) \<times> world" where
  "translate_universal en filters w =
     (case decompose en filters of
        Inl e \<Rightarrow> (Inl e, w)
      | Inr acc \<Rightarrow> build_query en filters acc w)"

text \<open>
  \<^verbatim>\<open>convert_filters_to_recordings_query\<close>: the result (or the exception), the playlist
  object as the call leaves it, and the world.
\<close>

definition convert_filters_to_recordings_query :: "env \<Rightarrow> playlist \<Rightarrow> world
    \<Rightarrow> (py_error + recordings_query) \<times> playlist \<times> world" where
  "convert_filters_to_recordings_query en p0 w =
     (let filters = dict_pop ''hogql_filtering'' (dict_pop ''version'' (pl_filters p0));
          p = p0\<lparr>pl_filters := filters\<rparr>
      in
      if \<not> has_key filters ''filter_group'' then
        (if filters = [] then (filter_from_params_to_query en filters, p, w)
         else
           (case convert_legacy_filters_to_universal_filters (Some filters) of
              Inl e \<Rightarrow> (Inl e, p, w)
            | Inr universal \<Rightarrow>
                (let p' = p\<lparr>pl_filters := universal\<rparr> in
                 case save_filters p' w of
                   Inl e \<Rightarrow> (Inl e, p', w)
                 | Inr w' \<Rightarrow>
                     (let r = translate_universal en universal
                                (inc ''replay_playlist_legacy_filters_converted'' w')
                      in (fst r, p', snd r)))))
      else
        (let r = translate_universal en filters w in (fst r, p, snd r)))"

section \<open>The recomputation task\<close>

definition THIRTY_SIX_HOURS_IN_SECONDS :: nat where
  "THIRTY_SIX_HOURS_IN_SECONDS = 36 * 60 * 60"

definition read_clock :: "world \<Rightarrow> int \<times> world" where
  "read_clock w = (clock w (clock_reads w), w\<lparr>clock_reads := Suc (clock_reads w)\<rparr>)"

text \<open>\<^verbatim>\<open>int(delta.total_seconds())\<close> of a difference in microseconds: truncation towards zero.\<close>

definition total_seconds_int :: "int \<Rightarrow> int" where
  "total_seconds_int us = (if 0 \<le> us then us div 1000000 else - ((- us) div 1000000))"

definition error_name :: "py_error \<Rightarrow> string" where
  "error_name e =
     (case e of
        TypeError \<Rightarrow> ''TypeError''
      | KeyError \<Rightarrow> ''KeyError''
      | AttributeError \<Rightarrow> ''AttributeError''
      | ValueError \<Rightarrow> ''ValueError''
      | IndexError \<Rightarrow> ''IndexError''
      | DatabaseError \<Rightarrow> ''DatabaseError''
      | ValidationError \<Rightarrow> ''ValidationError''
      | DoesNotExist \<Rightarrow> ''DoesNotExist''
      | CHQueryErrorTooManySimultaneousQueries \<Rightarrow> ''CHQueryErrorTooManySimultaneousQueries''
      | PyException msg \<Rightarrow> ''Exception'')"

text \<open>
  Lines 314 to 320: whether the cached value is fresh enough to skip. The clock is read
  only when the cached value has a truthy \<^verbatim>\<open>refreshed_at\<close>.
\<close>

definition cooldown_check :: "env \<Rightarrow> json \<Rightarrow> world \<Rightarrow> py_error + (bool \<times> world)" where
  "cooldown_check en existing_value w =
     (case py_get existing_value ''refreshed_at'' of
        Inl e \<Rightarrow> Inl e
      | Inr refreshed_at \<Rightarrow>
          if truthy refreshed_at
          then (case fromisoformat en refreshed_at of
                  Inl e \<Rightarrow> Inl e
                | Inr last_refreshed_at \<Rightarrow>
                    (let r = read_clock w;
                         seconds_since_refresh = total_seconds_int (fst r - last_refreshed_at)
                     in Inr (seconds_since_refresh
                               \<le> PLAYLIST_COUNTER_PROCESSING_COOLDOWN_SECONDS en, snd r)))
          else Inr (False, w))"

text \<open>Lines 322 to 347: the default-filter skip, the query, the cache write.\<close>

definition run_count :: "env \<Rightarrow> playlist \<Rightarrow> json \<Rightarrow> world
    \<Rightarrow> (py_error + unit) \<times> playlist \<times> recordings_query option \<times> world" where
  "run_count en playlist existing_value w =
     (if py_eq (JDict (pl_filters playlist)) (JDict DEFAULT_RECORDING_FILTERS)
      then (Inr (), playlist, None, inc ''replay_playlist_count_skipped{reason=default_filters}'' w)
      else
        (case convert_filters_to_recordings_query en playlist w of
           (Inl e, p1, w1) \<Rightarrow> (Inl e, p1, None, w1)
         | (Inr query, p1, w1) \<Rightarrow>
             (let w2 = w1\<lparr>engine_executions := engine_executions w1 @ [query]\<rparr> in
              case list_recordings_from_query en query (pl_team p1) of
                Inl e \<Rightarrow> (Inl e, p1, Some query, w2)
              | Inr (session_ids, more_recordings_available) \<Rightarrow>
                  (let r = read_clock w2;
                       counted_at_date = fst r;
                       w3 = snd r
                   in case py_get_default existing_value ''session_ids'' JNull of
                        Inl e \<Rightarrow> (Inl e, p1, Some query, w3)
                      | Inr previous_ids \<Rightarrow>
                          (let value_to_set =
                                 JDict [(''session_ids'', JList (map JStr session_ids)),
                                        (''has_more'', JBool more_recordings_available),
                                        (''previous_ids'', previous_ids),
                                        (''refreshed_at'', JStr (isoformat en counted_at_date))];
                               k = PLAYLIST_COUNT_REDIS_PREFIX en @ pl_short_id p1;
                               w4 = w3\<lparr>redis := (redis w3)(k \<mapsto> value_to_set),
                                       redis_ttl := (redis_ttl w3)(k \<mapsto> THIRTY_SIX_HOURS_IN_SECONDS)\<rparr>;
                               p2 = p1\<lparr>pl_last_counted_at := Some counted_at_date\<rparr>
                           in case save_last_counted_at p2 w4 of
                                Inl e \<Rightarrow> (Inl e, p2, Some query, w4)
                              | Inr w5 \<Rightarrow>
                                  (Inr (), p2, Some query,
                                   inc ''replay_playlist_count_succeeded'' w5))))))"

text \<open>Lines 307 to 347: the body of the \<^verbatim>\<open>try\<close>, once the playlist is loaded.\<close>

definition count_body :: "env \<Rightarrow> playlist \<Rightarrow> world
    \<Rightarrow> (py_error + unit) \<times> playlist \<times> recordings_query option \<times> world" where
  "count_body en playlist w =
     (let existing_value =
            (case redis w (PLAYLIST_COUNT_REDIS_PREFIX en @ pl_short_id playlist) of
               None \<Rightarrow> JDict []
             | Some v \<Rightarrow> v)
      in case cooldown_check en existing_value w of
           Inl e \<Rightarrow> (Inl e, playlist, None, w)
         | Inr (skip, w1) \<Rightarrow>
             if skip
             then (Inr (), playlist, None, inc ''replay_playlist_count_skipped{reason=cooldown}'' w1)
             else run_count en playlist existing_value w1)"

text \<open>Lines 348 to 380: the two \<^verbatim>\<open>except\<close> clauses.\<close>

definition handle_exception :: "nat \<Rightarrow> playlist option \<Rightarrow> recordings_query option
    \<Rightarrow> py_error \<Rightarrow> world \<Rightarrow> world" where
  "handle_exception playlist_id playlist query e w =
     (if e = DoesNotExist
      then inc ''replay_playlist_count_unknown''
             (w\<lparr>logged := logged w @ [PlaylistMissing playlist_id (map_option pl_short_id playlist)]\<rparr>)
      else inc (''replay_playlist_count_failed{error='' @ error_name e @ ''}'')
             (w\<lparr>logged := logged w @
                 [CountFailed playlist_id (map_option pl_short_id playlist)
                    (map_option pl_filters playlist) query e]\<rparr>))"

text \<open>
  The task. The histogram that times the body is outside the model; the task returns
  nothing, so the model returns the world it leaves.
\<close>

definition count_recordings_that_match_playlist_filters :: "env \<Rightarrow> nat \<Rightarrow> world \<Rightarrow> world" where
  "count_recordings_that_match_playlist_filters en playlist_id w =
     (case db w playlist_id of
        None \<Rightarrow> handle_exception playlist_id None None DoesNotExist w
      | Some playlist \<Rightarrow>
          (case count_body en playlist w of
             (Inr u, p', query, w') \<Rightarrow> w'
           | (Inl e, p', query, w') \<Rightarrow> handle_exception playlist_id (Some p') query e w'))"

section \<open>The revenue example query\<close>

datatype expr =
    Constant string
  | Field "string list"
  | Alias string expr

datatype join_expr = JoinExpr expr

datatype order_expr = OrderExpr expr string

record select_query =
  select :: "expr list"
  select_from :: join_expr
  order_by :: "order_expr list"

text \<open>
  Modelled from the spec: the classmethods \<^verbatim>\<open>SelectQuery.empty\<close> and
  \<^verbatim>\<open>SelectSetQuery.create_from_queries\<close> of \<^verbatim>\<open>posthog.hogql.ast\<close> are missing from
  the modules modelled here. The spec has the first return "an explicitly empty SelectQuery (valid
  zero-row result)" and the second combine the queries "with a UNION ALL into a
  SelectSetQuery".
\<close>

datatype query_ast =
    SelectQuery select_query
  | EmptySelectQuery
  | SelectSetQuery "select_query list" string

definition SelectQuery_empty :: query_ast where
  "SelectQuery_empty = EmptySelectQuery"

definition create_from_queries :: "select_query list \<Rightarrow> string \<Rightarrow> query_ast" where
  "create_from_queries queries set_operator = SelectSetQuery queries set_operator"

record revenue_table =
  tableName :: string
  revenueColumn :: string
  timestampColumn :: string

record revenue_tracking_config =
  dataWarehouseTables :: "revenue_table list option"

text \<open>The \<^verbatim>\<open>ast.SelectQuery\<close> appended for one table (lines 34 to 43).\<close>

definition table_query :: "revenue_table \<Rightarrow> select_query" where
  "table_query table =
     \<lparr>select = [Alias ''table_name'' (Constant (tableName table)),
                Alias ''revenue'' (Field [tableName table, revenueColumn table])],
      select_from = JoinExpr (Field [tableName table]),
      order_by = [OrderExpr (Field [tableName table, timestampColumn table]) ''DESC'']\<rparr>"

definition to_query :: "revenue_tracking_config \<Rightarrow> query_ast" where
  "to_query tracking_config =
     (let queries =
            (case dataWarehouseTables tracking_config of
               None \<Rightarrow> []
             | Some tables \<Rightarrow> if tables \<noteq> [] then map table_query tables else [])
      in if length queries = 0 then SelectQuery_empty
         else create_from_queries queries ''UNION ALL'')"

section \<open>Auxiliary definitions\<close>

text \<open>
  The two \<^verbatim>\<open>pop\<close> calls of lines 176 and 178, and the filters that
  \<^verbatim>\<open>convert_filters_to_recordings_query\<close> leaves on the playlist object (lines 173 to 188),
  named for the proofs.
\<close>

definition strip_keys :: "dict \<Rightarrow> dict" where
  "strip_keys d = dict_pop ''hogql_filtering'' (dict_pop ''version'' d)"

definition kept_filters :: "dict \<Rightarrow> dict" where
  "kept_filters d =
     (let g = strip_keys d in
      if has_key g ''filter_group'' \<or> g = [] then g
      else (case convert_legacy_filters_to_universal_filters (Some g) of
              Inl e \<Rightarrow> g
            | Inr universal \<Rightarrow> universal))"

text \<open>
  The dispatch table in the words of the specification, to compare the loop with: a leaf
  of type \<^verbatim>\<open>events\<close> goes to the events as it is, \<^verbatim>\<open>actions\<close> to the actions,
  \<^verbatim>\<open>log_entry\<close> to the console-log filters; a \<^verbatim>\<open>recording\<close> leaf with key
  \<^verbatim>\<open>visited_page\<close> is rewritten into a pageview event; a \<^verbatim>\<open>recording\<close> leaf with
  key \<^verbatim>\<open>snapshot_source\<close> and a non-empty value goes to the having-predicates; every
  other leaf goes to the properties. The query expected for a document is made of these
  lists, in the order of the leaves.
\<close>

definition is_visited_page :: "dict \<Rightarrow> bool" where
  "is_visited_page d =
     (dict_get d ''type'' = JStr ''recording'' \<and> dict_get d ''key'' = JStr ''visited_page'')"

definition is_snapshot_source :: "dict \<Rightarrow> bool" where
  "is_snapshot_source d =
     (dict_get d ''type'' = JStr ''recording'' \<and> dict_get d ''key'' = JStr ''snapshot_source''
      \<and> truthy (dict_get d ''value''))"

definition spec_events :: "dict list \<Rightarrow> json list" where
  "spec_events ds =
     concat (map (\<lambda>d. if dict_get d ''type'' = JStr ''events'' then [JDict d]
                       else if is_visited_page d then [pageview_event d]
                       else []) ds)"

definition spec_actions :: "dict list \<Rightarrow> json list" where
  "spec_actions ds = map JDict (filter (\<lambda>d. dict_get d ''type'' = JStr ''actions'') ds)"

definition spec_console_log_filters :: "dict list \<Rightarrow> json list" where
  "spec_console_log_filters ds =
     map JDict (filter (\<lambda>d. dict_get d ''type'' = JStr ''log_entry'') ds)"

definition spec_having_predicates :: "dict list \<Rightarrow> predicate list" where
  "spec_having_predicates ds = map (\<lambda>d. RawFilter (JDict d)) (filter is_snapshot_source ds)"

definition spec_properties :: "dict list \<Rightarrow> json list" where
  "spec_properties ds =
     map JDict
       (filter (\<lambda>d. dict_get d ''type'' \<noteq> JStr ''events''
                   \<and> dict_get d ''type'' \<noteq> JStr ''actions''
                   \<and> dict_get d ''type'' \<noteq> JStr ''log_entry''
                   \<and> \<not> is_visited_page d \<and> \<not> is_snapshot_source d) ds)"

definition expected_query :: "dict \<Rightarrow> dict \<Rightarrow> dict list \<Rightarrow> predicate list \<Rightarrow> recordings_query" where
  "expected_query g fg ds hp =
     \<lparr>rq_order = dict_get g ''order'',
      rq_date_from = dict_get g ''date_from'',
      rq_date_to = dict_get g ''date_to'',
      rq_properties = spec_properties ds,
      rq_events = spec_events ds,
      rq_actions = spec_actions ds,
      rq_console_log_filters = spec_console_log_filters ds,
      rq_having_predicates = hp @ spec_having_predicates ds,
      rq_filter_test_accounts = dict_get g ''filter_test_accounts'',
      rq_operand = dict_get_default fg ''type'' (JStr ''AND'')\<rparr>"

section \<open>Concrete documents\<close>

definition example_legacy_filters :: dict where
  "example_legacy_filters =
     [(''events'', JList [JDict [(''type'', JStr ''events''), (''id'', JStr ''$pageview'')],
                          JDict [(''type'', JStr ''events''), (''id'', JStr ''$autocapture'')]]),
      (''actions'', JList [JDict [(''type'', JStr ''actions''), (''id'', JInt 7)]]),
      (''console_logs'', JList [JStr ''error'']),
      (''console_search_query'', JStr ''boom'')]"

definition example_env :: env where
  "example_env =
     \<lparr>RecordingPropertyFilter_ok = (\<lambda>k operator v. True),
      RecordingsQuery_ok = (\<lambda>q. True),
      filter_from_params_to_query =
        (\<lambda>d. Inr \<lparr>rq_order = JNull, rq_date_from = JNull, rq_date_to = JNull,
                   rq_properties = [], rq_events = [], rq_actions = [],
                   rq_console_log_filters = [], rq_having_predicates = [],
                   rq_filter_test_accounts = JNull, rq_operand = JNull\<rparr>),
      list_recordings_from_query = (\<lambda>q team. Inr ([''session-1'', ''session-2''], False)),
      fromisoformat = (\<lambda>j. if j = JStr ''1970-01-01T00:00:00'' then Inr 0 else Inl ValueError),
      isoformat = (\<lambda>t. ''1970-01-01T00:00:10''),
      PLAYLIST_COUNT_REDIS_PREFIX = ''playlist_count_'',
      PLAYLIST_COUNTER_PROCESSING_COOLDOWN_SECONDS = 300\<rparr>"

definition example_playlist :: "dict \<Rightarrow> playlist" where
  "example_playlist d =
     \<lparr>pl_id = 1, pl_short_id = ''abc'', pl_team = 2, pl_filters = d, pl_last_counted_at = None\<rparr>"

definition example_world :: "dict \<Rightarrow> world" where
  "example_world d =
     \<lparr>db = (\<lambda>i. if i = 1 then Some (example_playlist d) else None),
      redis = (\<lambda>k. None),
      redis_ttl = (\<lambda>k. None),
      metrics = (\<lambda>name. 0),
      engine_executions = [],
      logged = [],
      clock = (\<lambda>n. 10000000),
      clock_reads = 0\<rparr>"

definition visited_page_leaf :: dict where
  "visited_page_leaf =
     [(''type'', JStr ''recording''), (''key'', JStr ''visited_page''),
      (''value'', JStr ''/pricing''), (''operator'', JStr ''exact'')]"

definition snapshot_source_leaf :: dict where
  "snapshot_source_leaf =
     [(''type'', JStr ''recording''), (''key'', JStr ''snapshot_source''),
      (''value'', JList [JStr ''web'']), (''operator'', JStr ''exact'')]"


definition person_leaf :: dict where
  "person_leaf =
     [(''type'', JStr ''person''), (''key'', JStr ''email''),
      (''value'', JStr ''a@b.c''), (''operator'', JStr ''exact'')]"


definition example_durations :: "json list" where
  "example_durations =
     [JDict [(''type'', JStr ''recording''), (''key'', JStr ''active_seconds''),
             (''value'', JInt 5), (''operator'', JStr ''gt'')],
      JDict [(''type'', JStr ''recording''), (''key'', JStr ''duration''),
             (''value'', JInt 600), (''operator'', JStr ''lt'')]]"

definition example_universal_filters :: "json list \<Rightarrow> dict" where
  "example_universal_filters leaves =
     [(''date_from'', JStr ''-7d''),
      (''duration'', JList example_durations),
      (''filter_group'',
         JDict [(''type'', JStr ''AND''),
                (''values'', JList [JDict [(''type'', JStr ''AND''),
                                           (''values'', JList leaves)]])])]"



definition null_events_filters :: dict where
  "null_events_filters = [(''events'', JNull)]"

definition string_duration_filters :: dict where
  "string_duration_filters =
     [(''session_recording_duration'', JStr ''long''), (''events'', JList [])]"


definition cached_world :: world where
  "cached_world =
     (example_world (example_universal_filters [JDict visited_page_leaf]))
       \<lparr>redis := (\<lambda>k. if k = ''playlist_count_abc''
                      then Some (JDict [(''session_ids'', JList [JStr ''session-1'']),
                                        (''has_more'', JBool False),
                                        (''previous_ids'', JNull),
                                        (''refreshed_at'', JStr ''1970-01-01T00:00:00'')])
                      else None)\<rparr>"


definition strict_env :: env where
  "strict_env =
     example_env
       \<lparr>RecordingsQuery_ok :=
          (\<lambda>q. list_all (\<lambda>x. py_get x ''type'' \<noteq> Inr (JStr ''foo'')) (rq_properties q))\<rparr>"

definition example_tables :: "revenue_table list" where
  "example_tables =
     [\<lparr>tableName = ''stripe_charges'', revenueColumn = ''amount'', timestampColumn = ''created''\<rparr>,
      \<lparr>tableName = ''orders'', revenueColumn = ''total'', timestampColumn = ''placed_at''\<rparr>]"

definition legacy_pageview_filters :: dict where
  "legacy_pageview_filters =
     [(''events'', JList [JDict [(''type'', JStr ''events''), (''id'', JStr ''$pageview'')]])]"

definition normalized_once :: dict where
  "normalized_once =
     [(''date_from'', JStr ''-3d''),
      (''date_to'', JNull),
      (''filter_test_accounts'', JBool False),
      (''duration'',
         JList [JDict [(''type'', JStr ''recording''), (''key'', JStr ''active_seconds''),
                       (''value'', JInt 5), (''operator'', JStr ''gt'')]]),
      (''filter_group'',
         JDict [(''type'', JStr ''AND''),
                (''values'',
                   JList [JDict [(''type'', JStr ''AND''),
                                 (''values'',
                                    JList [JDict [(''type'', JStr ''events''),
                                                  (''id'', JStr ''$pageview'')]])]])]),
      (''order'', JStr ''start_time'')]"

definition normalized_twice :: dict where
  "normalized_twice =
     [(''date_from'', JStr ''-3d''),
      (''date_to'', JNull),
      (''filter_test_accounts'', JBool False),
      (''duration'',
         JList [JDict [(''type'', JStr ''recording''), (''key'', JStr ''active_seconds''),
                       (''value'', JInt 5), (''operator'', JStr ''gt'')]]),
      (''filter_group'',
         JDict [(''type'', JStr ''AND''),
                (''values'',
                   JList [JDict [(''type'', JStr ''AND''), (''values'', JList [])]])]),
      (''order'', JStr ''start_time'')]"

section \<open>Properties of the normalizer\<close>

lemma group_values_lists:
  assumes "dict_get_default filters ''events'' (JList []) = JList evs"
      and "dict_get_default filters ''actions'' (JList []) = JList acts"
      and "dict_get_default filters ''properties'' (JList []) = JList props"
  shows "group_values filters =
           Inr (JList (evs @ acts @ props @ log_level_filters filters @ log_query_filters filters))"
  using assms by (simp add: group_values_def)

lemma legacy_duration_ok:
  assumes "truthy (dict_get filters ''session_recording_duration'')
             \<longrightarrow> (\<exists>d. dict_get filters ''session_recording_duration'' = JDict d)"
  shows "\<exists>dur. legacy_duration filters = Inr dur"
proof (cases "truthy (dict_get filters ''session_recording_duration'')")
  case False
  then show ?thesis by (simp add: legacy_duration_def)
next
  case True
  with assms obtain d where d: "dict_get filters ''session_recording_duration'' = JDict d"
    by blast
  from True d have "map_of filters ''session_recording_duration'' = Some (JDict d)"
    by (auto simp: dict_get_def split: option.splits)
  with True d show ?thesis
    by (simp add: legacy_duration_def dict_get_default_def)
qed

lemma py_add_list_right:
  "py_add a (JList ys) = Inr v \<Longrightarrow> \<exists>xs. a = JList xs \<and> v = JList (xs @ ys)"
  by (cases a) auto

lemma py_add_error: "py_add a b = Inl e \<Longrightarrow> e = TypeError"
  by (erule py_add.elims) auto

lemma group_values_error: "group_values filters = Inl e \<Longrightarrow> e = TypeError"
  by (auto simp: group_values_def split: sum.splits dest: py_add_error)

lemma group_values_Inr:
  assumes "group_values filters = Inr v"
  shows "\<exists>evs acts props.
           dict_get_default filters ''events'' (JList []) = JList evs
         \<and> dict_get_default filters ''actions'' (JList []) = JList acts
         \<and> dict_get_default filters ''properties'' (JList []) = JList props"
proof -
  from assms obtain ea eap eapl where
    a1: "py_add (dict_get_default filters ''events'' (JList []))
                (dict_get_default filters ''actions'' (JList [])) = Inr ea"
    and a2: "py_add ea (dict_get_default filters ''properties'' (JList [])) = Inr eap"
    and a3: "py_add eap (JList (log_level_filters filters)) = Inr eapl"
    by (auto simp: group_values_def split: sum.splits)
  from py_add_list_right [OF a3] obtain xs where x: "eap = JList xs" by blast
  from a2 x have "\<exists>l r. ea = JList l \<and> dict_get_default filters ''properties'' (JList []) = JList r"
    by (cases ea; cases "dict_get_default filters ''properties'' (JList [])") auto
  then obtain l r where l: "ea = JList l"
    and r: "dict_get_default filters ''properties'' (JList []) = JList r" by blast
  from a1 l have "\<exists>e a. dict_get_default filters ''events'' (JList []) = JList e
                      \<and> dict_get_default filters ''actions'' (JList []) = JList a"
    by (cases "dict_get_default filters ''events'' (JList [])";
        cases "dict_get_default filters ''actions'' (JList [])") auto
  with r show ?thesis by blast
qed

lemma legacy_duration_error: "legacy_duration filters = Inl e \<Longrightarrow> e = TypeError"
  by (cases "dict_get filters ''session_recording_duration''")
     (auto simp: legacy_duration_def dict_get_default_def dict_get_def
           split: if_splits sum.splits option.splits)

lemma legacy_duration_not_dict:
  assumes "truthy (dict_get filters ''session_recording_duration'')"
      and "\<forall>d. dict_get filters ''session_recording_duration'' \<noteq> JDict d"
  shows "legacy_duration filters = Inl TypeError"
  using assms
  by (cases "dict_get filters ''session_recording_duration''")
     (auto simp: legacy_duration_def)

lemma convert_legacy_error:
  "convert_legacy_filters_to_universal_filters arg = Inl e \<Longrightarrow> e = TypeError"
  by (auto simp: convert_legacy_filters_to_universal_filters_def Let_def
           split: if_splits sum.splits option.splits
           dest: group_values_error legacy_duration_error)

text \<open>
  Claim C3, as the code has it. For a non-empty legacy document whose \<^verbatim>\<open>events\<close>,
  \<^verbatim>\<open>actions\<close> and \<^verbatim>\<open>properties\<close> are lists where present and whose
  \<^verbatim>\<open>session_recording_duration\<close> is falsy or a dict, the normalizer returns a document
  whose \<^verbatim>\<open>filter_group\<close> is one AND group holding exactly one inner AND group. The
  children of the inner group are the events, the actions, the properties, then one level
  filter for a truthy \<^verbatim>\<open>console_logs\<close> and one message filter for a truthy
  \<^verbatim>\<open>console_search_query\<close>, so their number is the stated sum. On every other non-empty
  document the normalizer raises TypeError and returns no document.
\<close>

theorem normalize_group_shape:
  assumes nonempty: "filters \<noteq> []"
  shows "(dict_get_default filters ''events'' (JList []) = JList evs
        \<and> dict_get_default filters ''actions'' (JList []) = JList acts
        \<and> dict_get_default filters ''properties'' (JList []) = JList props
        \<and> (truthy (dict_get filters ''session_recording_duration'')
             \<longrightarrow> (\<exists>d. dict_get filters ''session_recording_duration'' = JDict d)) \<longrightarrow>
         (\<exists>out children.
            convert_legacy_filters_to_universal_filters (Some filters) = Inr out
          \<and> dict_get out ''filter_group'' =
              JDict [(''type'', JStr ''AND''),
                     (''values'', JList [JDict [(''type'', JStr ''AND''),
                                                (''values'', JList children)]])]
          \<and> children =
              evs @ acts @ props
              @ (if truthy (dict_get filters ''console_logs'')
                 then [JDict [(''key'', JStr ''level''),
                              (''value'', dict_get filters ''console_logs''),
                              (''operator'', JStr ''exact''),
                              (''type'', JStr ''log_entry'')]]
                 else [])
              @ (if truthy (dict_get filters ''console_search_query'')
                 then [JDict [(''key'', JStr ''message''),
                              (''value'', JList [dict_get filters ''console_search_query'']),
                              (''operator'', JStr ''exact''),
                              (''type'', JStr ''log_entry'')]]
                 else [])
          \<and> length children =
              length evs + length acts + length props
              + (if truthy (dict_get filters ''console_logs'') then 1 else 0)
              + (if truthy (dict_get filters ''console_search_query'') then 1 else 0)))
       \<and> ((\<forall>xs. dict_get_default filters ''events'' (JList []) \<noteq> JList xs)
          \<or> (\<forall>xs. dict_get_default filters ''actions'' (JList []) \<noteq> JList xs)
          \<or> (\<forall>xs. dict_get_default filters ''properties'' (JList []) \<noteq> JList xs)
          \<or> (truthy (dict_get filters ''session_recording_duration'')
              \<and> (\<forall>d. dict_get filters ''session_recording_duration'' \<noteq> JDict d)) \<longrightarrow>
          convert_legacy_filters_to_universal_filters (Some filters) = Inl TypeError)"
proof (intro conjI impI)
  assume h: "dict_get_default filters ''events'' (JList []) = JList evs
        \<and> dict_get_default filters ''actions'' (JList []) = JList acts
        \<and> dict_get_default filters ''properties'' (JList []) = JList props
        \<and> (truthy (dict_get filters ''session_recording_duration'')
             \<longrightarrow> (\<exists>d. dict_get filters ''session_recording_duration'' = JDict d))"
  then obtain d where d: "legacy_duration filters = Inr d"
    using legacy_duration_ok [of filters] by blast
  have g: "group_values filters =
             Inr (JList (evs @ acts @ props @ log_level_filters filters @ log_query_filters filters))"
    using h by (intro group_values_lists) simp_all
  show "\<exists>out children.
            convert_legacy_filters_to_universal_filters (Some filters) = Inr out
          \<and> dict_get out ''filter_group'' =
              JDict [(''type'', JStr ''AND''),
                     (''values'', JList [JDict [(''type'', JStr ''AND''),
                                                (''values'', JList children)]])]
          \<and> children =
              evs @ acts @ props
              @ (if truthy (dict_get filters ''console_logs'')
                 then [JDict [(''key'', JStr ''level''),
                              (''value'', dict_get filters ''console_logs''),
                              (''operator'', JStr ''exact''),
                              (''type'', JStr ''log_entry'')]]
                 else [])
              @ (if truthy (dict_get filters ''console_search_query'')
                 then [JDict [(''key'', JStr ''message''),
                              (''value'', JList [dict_get filters ''console_search_query'']),
                              (''operator'', JStr ''exact''),
                              (''type'', JStr ''log_entry'')]]
                 else [])
          \<and> length children =
              length evs + length acts + length props
              + (if truthy (dict_get filters ''console_logs'') then 1 else 0)
              + (if truthy (dict_get filters ''console_search_query'') then 1 else 0)"
    using nonempty d g
    by (simp add: convert_legacy_filters_to_universal_filters_def dict_get_def
                  FilterLogicalOperator_AND_def log_level_filters_def log_query_filters_def
                  PropertyOperator_EXACT_def PropertyFilterType_LOG_ENTRY_def)
next
  assume h: "(\<forall>xs. dict_get_default filters ''events'' (JList []) \<noteq> JList xs)
          \<or> (\<forall>xs. dict_get_default filters ''actions'' (JList []) \<noteq> JList xs)
          \<or> (\<forall>xs. dict_get_default filters ''properties'' (JList []) \<noteq> JList xs)
          \<or> (truthy (dict_get filters ''session_recording_duration'')
              \<and> (\<forall>d. dict_get filters ''session_recording_duration'' \<noteq> JDict d))"
  show "convert_legacy_filters_to_universal_filters (Some filters) = Inl TypeError"
  proof (cases "convert_legacy_filters_to_universal_filters (Some filters)")
    case (Inl e)
    with convert_legacy_error [OF Inl] show ?thesis by simp
  next
    case (Inr out)
    with nonempty obtain dur v where
      d: "legacy_duration filters = Inr dur" and g: "group_values filters = Inr v"
      by (auto simp: convert_legacy_filters_to_universal_filters_def split: sum.splits)
    from group_values_Inr [OF g] h d legacy_duration_not_dict [of filters]
    show ?thesis by auto
  qed
qed

theorem normalize_group_shape_witness:
  "(\<exists>out children.
     convert_legacy_filters_to_universal_filters (Some example_legacy_filters) = Inr out
   \<and> dict_get out ''filter_group'' =
       JDict [(''type'', JStr ''AND''),
              (''values'', JList [JDict [(''type'', JStr ''AND''),
                                         (''values'', JList children)]])]
   \<and> length children = 5)
 \<and> convert_legacy_filters_to_universal_filters (Some [(''actions'', JStr ''none'')]) =
     Inl TypeError"
proof -
  have h1: "example_legacy_filters \<noteq> []"
    by (simp add: example_legacy_filters_def)
  have h2: "dict_get_default example_legacy_filters ''events'' (JList []) =
              JList [JDict [(''type'', JStr ''events''), (''id'', JStr ''$pageview'')],
                     JDict [(''type'', JStr ''events''), (''id'', JStr ''$autocapture'')]]
          \<and> dict_get_default example_legacy_filters ''actions'' (JList []) =
              JList [JDict [(''type'', JStr ''actions''), (''id'', JInt 7)]]
          \<and> dict_get_default example_legacy_filters ''properties'' (JList []) = JList []
          \<and> (truthy (dict_get example_legacy_filters ''session_recording_duration'')
              \<longrightarrow> (\<exists>d. dict_get example_legacy_filters ''session_recording_duration'' = JDict d))"
    by (simp add: example_legacy_filters_def dict_get_default_def dict_get_def)
  have c: "truthy (dict_get example_legacy_filters ''console_logs'')"
          "truthy (dict_get example_legacy_filters ''console_search_query'')"
    by (simp_all add: example_legacy_filters_def dict_get_def)
  from normalize_group_shape [OF h1,
      where evs = "[JDict [(''type'', JStr ''events''), (''id'', JStr ''$pageview'')],
                    JDict [(''type'', JStr ''events''), (''id'', JStr ''$autocapture'')]]"
        and acts = "[JDict [(''type'', JStr ''actions''), (''id'', JInt 7)]]"
        and props = "[]"] h2
  have "\<exists>out children.
     convert_legacy_filters_to_universal_filters (Some example_legacy_filters) = Inr out
   \<and> dict_get out ''filter_group'' =
       JDict [(''type'', JStr ''AND''),
              (''values'', JList [JDict [(''type'', JStr ''AND''),
                                         (''values'', JList children)]])]
   \<and> children =
       [JDict [(''type'', JStr ''events''), (''id'', JStr ''$pageview'')],
        JDict [(''type'', JStr ''events''), (''id'', JStr ''$autocapture'')]]
       @ [JDict [(''type'', JStr ''actions''), (''id'', JInt 7)]] @ []
       @ (if truthy (dict_get example_legacy_filters ''console_logs'')
          then [JDict [(''key'', JStr ''level''),
                       (''value'', dict_get example_legacy_filters ''console_logs''),
                       (''operator'', JStr ''exact''),
                       (''type'', JStr ''log_entry'')]]
          else [])
       @ (if truthy (dict_get example_legacy_filters ''console_search_query'')
          then [JDict [(''key'', JStr ''message''),
                       (''value'', JList [dict_get example_legacy_filters ''console_search_query'']),
                       (''operator'', JStr ''exact''),
                       (''type'', JStr ''log_entry'')]]
          else [])
   \<and> length children =
       length [JDict [(''type'', JStr ''events''), (''id'', JStr ''$pageview'')],
               JDict [(''type'', JStr ''events''), (''id'', JStr ''$autocapture'')]]
       + length [JDict [(''type'', JStr ''actions''), (''id'', JInt 7)]] + length ([] :: json list)
       + (if truthy (dict_get example_legacy_filters ''console_logs'') then 1 else 0)
       + (if truthy (dict_get example_legacy_filters ''console_search_query'') then 1 else 0)"
    by blast
  with c have a: "\<exists>out children.
     convert_legacy_filters_to_universal_filters (Some example_legacy_filters) = Inr out
   \<and> dict_get out ''filter_group'' =
       JDict [(''type'', JStr ''AND''),
              (''values'', JList [JDict [(''type'', JStr ''AND''),
                                         (''values'', JList children)]])]
   \<and> length children = 5"
    by auto
  have n: "[(''actions'', JStr ''none'')] \<noteq> ([] :: dict)" by simp
  have "\<forall>xs. dict_get_default [(''actions'', JStr ''none'')] ''actions'' (JList []) \<noteq> JList xs"
    by (simp add: dict_get_default_def)
  with normalize_group_shape [OF n]
  have b: "convert_legacy_filters_to_universal_filters (Some [(''actions'', JStr ''none'')]) =
             Inl TypeError"
    by blast
  from a b show ?thesis by blast
qed

text \<open>
  Claim C3 as stated fails: the non-empty documents \<^verbatim>\<open>{"events": null}\<close> and
  \<^verbatim>\<open>{"session_recording_duration": "long", "events": []}\<close> have no group marker, and the
  normalizer raises TypeError on both.
\<close>

theorem normalize_raises_counterexample:
  "null_events_filters \<noteq> []
 \<and> \<not> has_key null_events_filters ''filter_group''
 \<and> convert_legacy_filters_to_universal_filters (Some null_events_filters) = Inl TypeError
 \<and> string_duration_filters \<noteq> []
 \<and> \<not> has_key string_duration_filters ''filter_group''
 \<and> convert_legacy_filters_to_universal_filters (Some string_duration_filters) = Inl TypeError"
  by (simp add: null_events_filters_def string_duration_filters_def has_key_def
        convert_legacy_filters_to_universal_filters_def legacy_duration_def group_values_def
        dict_get_def dict_get_default_def log_level_filters_def log_query_filters_def)

lemma strip_keys_idem: "strip_keys (strip_keys d) = strip_keys d"
  by (simp add: strip_keys_def dict_pop_def delete_idem delete_twist [of "''hogql_filtering''" "''version''"])

lemma strip_keys_get: "k \<noteq> ''version'' \<Longrightarrow> k \<noteq> ''hogql_filtering'' \<Longrightarrow> map_of (strip_keys d) k = map_of d k"
  by (simp add: strip_keys_def dict_pop_def)

lemma strip_keys_id:
  "\<not> has_key d ''version'' \<Longrightarrow> \<not> has_key d ''hogql_filtering'' \<Longrightarrow> strip_keys d = d"
  by (simp add: strip_keys_def dict_pop_def has_key_def map_of_eq_None_iff)

lemma convert_legacy_fixed:
  assumes "convert_legacy_filters_to_universal_filters (Some g) = Inr u" and "g \<noteq> []"
  shows "has_key u ''filter_group'' \<and> strip_keys u = u"
  using assms
  by (auto simp: convert_legacy_filters_to_universal_filters_def has_key_def strip_keys_def
                 dict_pop_def split: sum.splits)

lemma kept_filters_idem: "kept_filters (kept_filters d) = kept_filters d"
proof -
  let ?g = "strip_keys d"
  consider (a) "has_key ?g ''filter_group'' \<or> ?g = []"
    | (b) e where "\<not> (has_key ?g ''filter_group'' \<or> ?g = [])"
        "convert_legacy_filters_to_universal_filters (Some ?g) = Inl e"
    | (c) u where "\<not> (has_key ?g ''filter_group'' \<or> ?g = [])"
        "convert_legacy_filters_to_universal_filters (Some ?g) = Inr u"
    by (cases "convert_legacy_filters_to_universal_filters (Some ?g)") auto
  then show ?thesis
  proof cases
    case a
    then show ?thesis by (simp add: kept_filters_def strip_keys_idem)
  next
    case b
    then show ?thesis by (simp add: kept_filters_def strip_keys_idem)
  next
    case c
    then have k: "kept_filters d = u" by (simp add: kept_filters_def)
    from c convert_legacy_fixed [of ?g u] have "has_key u ''filter_group''" "strip_keys u = u"
      by auto
    then have "kept_filters u = u" by (simp add: kept_filters_def)
    with k show ?thesis by simp
  qed
qed

lemma convert_keeps:
  "pl_filters (fst (snd (convert_filters_to_recordings_query en p w))) = kept_filters (pl_filters p)"
  by (simp add: convert_filters_to_recordings_query_def kept_filters_def strip_keys_def Let_def
           split: sum.splits)

lemma translate_universal_frame:
  "db (snd (translate_universal en filters w)) = db w
 \<and> metrics (snd (translate_universal en filters w)) = metrics w
 \<and> redis (snd (translate_universal en filters w)) = redis w
 \<and> engine_executions (snd (translate_universal en filters w)) = engine_executions w"
  by (simp add: translate_universal_def build_query_def Let_def split: sum.splits)

text \<open>
  Claim C2, as the code has it. \<^verbatim>\<open>convert_legacy_filters_to_universal_filters\<close> has no
  check for a group marker: the check is the guard \<^verbatim>\<open>"filter_group" not in filters\<close> of
  \<^verbatim>\<open>convert_filters_to_recordings_query\<close>. Under that guard normalisation is idempotent:
  the filters the translator leaves on the playlist are left as they are by a second run;
  a document with a \<^verbatim>\<open>filter_group\<close> key is kept (up to the popped \<^verbatim>\<open>version\<close> and
  \<^verbatim>\<open>hogql_filtering\<close> keys) and nothing is saved or counted; and what the conversion of
  a non-empty document returns always has a \<^verbatim>\<open>filter_group\<close> key.
\<close>

theorem translator_normalization_idempotent:
  "pl_filters (fst (snd (convert_filters_to_recordings_query en
       (fst (snd (convert_filters_to_recordings_query en p w))) w'))) =
   pl_filters (fst (snd (convert_filters_to_recordings_query en p w)))
 \<and> (has_key (pl_filters p) ''filter_group'' \<longrightarrow>
      pl_filters (fst (snd (convert_filters_to_recordings_query en p w))) =
        dict_pop ''hogql_filtering'' (dict_pop ''version'' (pl_filters p))
    \<and> db (snd (snd (convert_filters_to_recordings_query en p w))) = db w
    \<and> metrics (snd (snd (convert_filters_to_recordings_query en p w))) = metrics w)
 \<and> (has_key (pl_filters p) ''filter_group'' \<and> \<not> has_key (pl_filters p) ''version''
      \<and> \<not> has_key (pl_filters p) ''hogql_filtering'' \<longrightarrow>
      fst (snd (convert_filters_to_recordings_query en p w)) = p)
 \<and> (g \<noteq> [] \<and> convert_legacy_filters_to_universal_filters (Some g) = Inr u \<longrightarrow>
      has_key u ''filter_group'')"
proof (intro conjI impI)
  show "pl_filters (fst (snd (convert_filters_to_recordings_query en
       (fst (snd (convert_filters_to_recordings_query en p w))) w'))) =
   pl_filters (fst (snd (convert_filters_to_recordings_query en p w)))"
    by (simp only: convert_keeps kept_filters_idem)
next
  assume h: "has_key (pl_filters p) ''filter_group''"
  then have g: "has_key (strip_keys (pl_filters p)) ''filter_group''"
    by (simp add: has_key_def strip_keys_get)
  then show "pl_filters (fst (snd (convert_filters_to_recordings_query en p w))) =
        dict_pop ''hogql_filtering'' (dict_pop ''version'' (pl_filters p))"
    by (simp add: convert_keeps kept_filters_def) (simp add: strip_keys_def)
  from g show "db (snd (snd (convert_filters_to_recordings_query en p w))) = db w"
    by (simp add: convert_filters_to_recordings_query_def strip_keys_def Let_def
                  translate_universal_frame)
  from g show "metrics (snd (snd (convert_filters_to_recordings_query en p w))) = metrics w"
    by (simp add: convert_filters_to_recordings_query_def strip_keys_def Let_def
                  translate_universal_frame)
next
  assume h: "has_key (pl_filters p) ''filter_group'' \<and> \<not> has_key (pl_filters p) ''version''
      \<and> \<not> has_key (pl_filters p) ''hogql_filtering''"
  then have s: "strip_keys (pl_filters p) = pl_filters p"
    by (simp add: strip_keys_id)
  with h show "fst (snd (convert_filters_to_recordings_query en p w)) = p"
    by (simp add: convert_filters_to_recordings_query_def strip_keys_def Let_def)
next
  assume "g \<noteq> [] \<and> convert_legacy_filters_to_universal_filters (Some g) = Inr u"
  then show "has_key u ''filter_group''"
    using convert_legacy_fixed [of g u] by simp
qed

theorem translator_normalization_idempotent_witness:
  "fst (snd (convert_filters_to_recordings_query example_env
       (example_playlist (example_universal_filters [JDict visited_page_leaf]))
       (example_world []))) =
     example_playlist (example_universal_filters [JDict visited_page_leaf])
 \<and> pl_filters (fst (snd (convert_filters_to_recordings_query example_env
       (example_playlist [(''version'', JInt 1),
                          (''filter_group'', JDict [(''type'', JStr ''AND'')])])
       (example_world [])))) =
     [(''filter_group'', JDict [(''type'', JStr ''AND'')])]"
proof -
  let ?p = "example_playlist (example_universal_filters [JDict visited_page_leaf])"
  let ?q = "example_playlist [(''version'', JInt 1),
                          (''filter_group'', JDict [(''type'', JStr ''AND'')])]"
  have h: "has_key (pl_filters ?p) ''filter_group'' \<and> \<not> has_key (pl_filters ?p) ''version''
      \<and> \<not> has_key (pl_filters ?p) ''hogql_filtering''"
    by (simp add: example_playlist_def example_universal_filters_def has_key_def)
  have k: "has_key (pl_filters ?q) ''filter_group''"
    by (simp add: example_playlist_def has_key_def)
  from translator_normalization_idempotent [of example_env ?p "example_world []" "example_world []"] h
       translator_normalization_idempotent [of example_env ?q "example_world []" "example_world []"] k
  show ?thesis
    by (simp add: example_playlist_def dict_pop_def)
qed

text \<open>
  Claim C2 as stated fails on the function itself: normalising the legacy document
  \<^verbatim>\<open>{"events": [{"type": "events", "id": "$pageview"}]}\<close> gives a document with a group
  marker, and normalising that document again empties its inner group.
\<close>

theorem normalize_twice_counterexample:
  "convert_legacy_filters_to_universal_filters (Some legacy_pageview_filters) = Inr normalized_once
 \<and> has_key normalized_once ''filter_group''
 \<and> convert_legacy_filters_to_universal_filters (Some normalized_once) = Inr normalized_twice
 \<and> dict_get normalized_twice ''filter_group'' \<noteq> dict_get normalized_once ''filter_group''
 \<and> normalized_twice \<noteq> normalized_once
 \<and> \<not> py_eq (JDict normalized_twice) (JDict normalized_once)"
  by (simp add: legacy_pageview_filters_def normalized_once_def normalized_twice_def
        convert_legacy_filters_to_universal_filters_def legacy_duration_def group_values_def
        dict_get_def dict_get_default_def log_level_filters_def log_query_filters_def py_or_def
        DEFAULT_RECORDING_FILTERS_def has_key_def FilterLogicalOperator_AND_def
        PropertyFilterType_RECORDING_def PropertyOperator_GT_def)

section \<open>The loop and the translator against the dispatch table\<close>

lemma process_filter_dict:
  "process_filter (JDict d) acc =
     Inr \<lparr>events = events acc @ spec_events [d],
          actions = actions acc @ spec_actions [d],
          properties = properties acc @ spec_properties [d],
          console_log_filters = console_log_filters acc @ spec_console_log_filters [d],
          having_predicates = having_predicates acc @ spec_having_predicates [d]\<rparr>"
  by (cases acc)
     (auto simp: Let_def spec_events_def spec_actions_def spec_properties_def
                 spec_console_log_filters_def spec_having_predicates_def
                 is_visited_page_def is_snapshot_source_def)

lemma spec_Cons:
  "spec_events (d # ds) = spec_events [d] @ spec_events ds"
  "spec_actions (d # ds) = spec_actions [d] @ spec_actions ds"
  "spec_properties (d # ds) = spec_properties [d] @ spec_properties ds"
  "spec_console_log_filters (d # ds) = spec_console_log_filters [d] @ spec_console_log_filters ds"
  "spec_having_predicates (d # ds) = spec_having_predicates [d] @ spec_having_predicates ds"
  by (simp_all add: spec_events_def spec_actions_def spec_properties_def
                    spec_console_log_filters_def spec_having_predicates_def)

lemma spec_Nil:
  "spec_events [] = []" "spec_actions [] = []" "spec_properties [] = []"
  "spec_console_log_filters [] = []" "spec_having_predicates [] = []"
  by (simp_all add: spec_events_def spec_actions_def spec_properties_def
                    spec_console_log_filters_def spec_having_predicates_def)

lemma process_filters_dicts:
  "process_filters (map JDict ds) acc =
     Inr \<lparr>events = events acc @ spec_events ds,
          actions = actions acc @ spec_actions ds,
          properties = properties acc @ spec_properties ds,
          console_log_filters = console_log_filters acc @ spec_console_log_filters ds,
          having_predicates = having_predicates acc @ spec_having_predicates ds\<rparr>"
proof (induction ds arbitrary: acc)
  case Nil
  show ?case by (cases acc) (simp add: spec_Nil)
next
  case (Cons d ds)
  show ?case
    by (simp only: list.map process_filters.simps process_filter_dict sum.case Cons.IH
                   spec_Cons [of d ds])
       simp
qed

lemma extract_document:
  assumes "dict_get g ''filter_group'' = JDict fg"
      and "dict_get fg ''values'' = JList (JDict grp # groups)"
      and "dict_get grp ''values'' = JList (map JDict ds)"
  shows "extract_filters g = Inr (JList (map JDict ds))"
proof -
  from assms(2) have fg: "fg \<noteq> []" by (auto simp: dict_get_def)
  from assms(3) have grp: "grp \<noteq> []" by (auto simp: dict_get_def)
  from assms fg grp show ?thesis
    by (simp add: extract_filters_def)
qed

lemma decompose_document:
  assumes "dict_get g ''filter_group'' = JDict fg"
      and "dict_get fg ''values'' = JList (JDict grp # groups)"
      and "dict_get grp ''values'' = JList (map JDict ds)"
      and "duration_predicates en g = Inr hp"
  shows "decompose en g =
           Inr \<lparr>events = spec_events ds, actions = spec_actions ds,
                properties = spec_properties ds,
                console_log_filters = spec_console_log_filters ds,
                having_predicates = hp @ spec_having_predicates ds\<rparr>"
  using extract_document [OF assms(1,2,3)] assms(4)
  by (simp add: decompose_def process_filters_dicts)

lemma operand_document:
  assumes "dict_get g ''filter_group'' = JDict fg"
  shows "py_get_default (dict_get_default g ''filter_group'' (JDict [])) ''type''
           FilterLogicalOperator_AND = Inr (dict_get_default fg ''type'' (JStr ''AND''))"
proof -
  from assms have "map_of g ''filter_group'' = Some (JDict fg)"
    by (auto simp: dict_get_def split: option.splits)
  then show ?thesis
    by (simp add: dict_get_default_def FilterLogicalOperator_AND_def)
qed

lemma translate_document:
  assumes "dict_get g ''filter_group'' = JDict fg"
      and "dict_get fg ''values'' = JList (JDict grp # groups)"
      and "dict_get grp ''values'' = JList (map JDict ds)"
      and "duration_predicates en g = Inr hp"
  shows "fst (translate_universal en g w) =
           (if RecordingsQuery_ok en (expected_query g fg ds hp)
            then Inr (expected_query g fg ds hp) else Inl ValidationError)"
  using decompose_document [OF assms] operand_document [OF assms(1)]
  by (simp add: translate_universal_def build_query_def expected_query_def Let_def)

lemma strip_keys_dict_get:
  "k \<noteq> ''version'' \<Longrightarrow> k \<noteq> ''hogql_filtering'' \<Longrightarrow>
   dict_get (dict_pop ''hogql_filtering'' (dict_pop ''version'' d)) k = dict_get d k"
  by (simp add: dict_get_def dict_pop_def)

lemma strip_keys_dict_get_default:
  "k \<noteq> ''version'' \<Longrightarrow> k \<noteq> ''hogql_filtering'' \<Longrightarrow>
   dict_get_default (dict_pop ''hogql_filtering'' (dict_pop ''version'' d)) k x =
   dict_get_default d k x"
  by (simp add: dict_get_default_def dict_pop_def)

lemma strip_keys_has_key:
  "k \<noteq> ''version'' \<Longrightarrow> k \<noteq> ''hogql_filtering'' \<Longrightarrow>
   has_key (dict_pop ''hogql_filtering'' (dict_pop ''version'' d)) k = has_key d k"
  by (simp add: has_key_def dict_pop_def)

lemma strip_keys_duration:
  "duration_predicates en (dict_pop ''hogql_filtering'' (dict_pop ''version'' d)) =
   duration_predicates en d"
  by (simp add: duration_predicates_def strip_keys_dict_get_default)

lemma convert_universal:
  assumes "has_key (pl_filters p) ''filter_group''"
  shows "convert_filters_to_recordings_query en p w =
           (fst (translate_universal en (dict_pop ''hogql_filtering'' (dict_pop ''version'' (pl_filters p))) w),
            p\<lparr>pl_filters := dict_pop ''hogql_filtering'' (dict_pop ''version'' (pl_filters p))\<rparr>,
            snd (translate_universal en (dict_pop ''hogql_filtering'' (dict_pop ''version'' (pl_filters p))) w))"
  using assms
  by (simp add: convert_filters_to_recordings_query_def Let_def strip_keys_has_key)

lemma convert_document:
  assumes "dict_get (pl_filters p) ''filter_group'' = JDict fg"
      and "dict_get fg ''values'' = JList (JDict grp # groups)"
      and "dict_get grp ''values'' = JList (map JDict ds)"
      and "duration_predicates en (pl_filters p) = Inr hp"
  shows "fst (convert_filters_to_recordings_query en p w) =
           (if RecordingsQuery_ok en (expected_query (pl_filters p) fg ds hp)
            then Inr (expected_query (pl_filters p) fg ds hp) else Inl ValidationError)"
proof -
  let ?g = "dict_pop ''hogql_filtering'' (dict_pop ''version'' (pl_filters p))"
  from assms(1) have k: "has_key (pl_filters p) ''filter_group''"
    by (auto simp: dict_get_def has_key_def split: option.splits)
  have g1: "dict_get ?g ''filter_group'' = JDict fg"
    using assms(1) by (simp add: strip_keys_dict_get)
  have g4: "duration_predicates en ?g = Inr hp"
    using assms(4) by (simp add: strip_keys_duration)
  have e: "expected_query ?g fg ds hp = expected_query (pl_filters p) fg ds hp"
    by (simp add: expected_query_def strip_keys_dict_get)
  from translate_document [OF g1 assms(2,3) g4, of w] e
  show ?thesis
    by (simp add: convert_universal [OF k])
qed

lemma spec_properties_set:
  "JDict d \<in> set (spec_properties ds) \<longleftrightarrow>
     d \<in> set ds \<and> dict_get d ''type'' \<noteq> JStr ''events''
       \<and> dict_get d ''type'' \<noteq> JStr ''actions''
       \<and> dict_get d ''type'' \<noteq> JStr ''log_entry''
       \<and> \<not> is_visited_page d \<and> \<not> is_snapshot_source d"
  by (auto simp: spec_properties_def)

lemma spec_having_set:
  "RawFilter (JDict d) \<in> set (spec_having_predicates ds) \<longleftrightarrow> d \<in> set ds \<and> is_snapshot_source d"
  by (auto simp: spec_having_predicates_def)

lemma spec_events_visited:
  "d \<in> set ds \<Longrightarrow> is_visited_page d \<Longrightarrow> pageview_event d \<in> set (spec_events ds)"
  by (auto simp: spec_events_def is_visited_page_def)


















lemma example_document_shape:
  "dict_get (pl_filters (example_playlist (example_universal_filters leaves))) ''filter_group'' =
     JDict [(''type'', JStr ''AND''),
            (''values'', JList [JDict [(''type'', JStr ''AND''), (''values'', JList leaves)]])]"
  "dict_get [(''type'', JStr ''AND''),
             (''values'', JList [JDict [(''type'', JStr ''AND''), (''values'', JList leaves)]])]
     ''values'' =
     JList (JDict [(''type'', JStr ''AND''), (''values'', JList leaves)] # [])"
  "dict_get [(''type'', JStr ''AND''), (''values'', JList leaves)] ''values'' = JList leaves"
  "has_key (pl_filters (example_playlist (example_universal_filters leaves))) ''filter_group''"
  by (simp_all add: example_playlist_def example_universal_filters_def dict_get_def has_key_def)

lemma example_document_duration:
  "duration_predicates en (pl_filters (example_playlist (example_universal_filters leaves))) =
     (if RecordingPropertyFilter_ok en (JStr ''active_seconds'') (JStr ''gt'') (JInt 5)
      then Inr [RecordingPropertyFilter (JStr ''active_seconds'') (JStr ''gt'') (JInt 5)]
      else Inl ValidationError)"
  by (simp add: example_playlist_def example_universal_filters_def duration_predicates_def
        dict_get_default_def example_durations_def asRecordingPropertyFilter_def)

lemma example_env_accepts:
  "RecordingsQuery_ok example_env q" "RecordingPropertyFilter_ok example_env k operator v"
  "RecordingPropertyFilter_ok strict_env k operator v"
  by (simp_all add: example_env_def strict_env_def)


section \<open>Properties of the translator\<close>







text \<open>
  Claim C6. A leaf of type \<^verbatim>\<open>recording\<close> with key \<^verbatim>\<open>visited_page\<close>, value
  \<^verbatim>\<open>"/pricing"\<close> and operator \<^verbatim>\<open>exact\<close> appends one \<^verbatim>\<open>$pageview\<close> event filter whose
  property list is the single \<^verbatim>\<open>$current_url\<close> constraint, and touches no other list. For
  a document whose first group holds this one leaf, the query the translator builds has
  exactly that event and no property, and the translator returns it when the schema accepts
  it; among other dict leaves, the event is among the query's events and the leaf is not
  among its properties.
\<close>

theorem visited_page_becomes_pageview:
  assumes "dict_get f ''type'' = JStr ''recording''"
      and "dict_get f ''key'' = JStr ''visited_page''"
      and "dict_get f ''value'' = JStr ''/pricing''"
      and "dict_get f ''operator'' = JStr ''exact''"
  shows "process_filter (JDict f) acc =
           Inr (acc\<lparr>events := events acc @
                  [JDict [(''id'', JStr ''$pageview''),
                          (''name'', JStr ''$pageview''),
                          (''type'', JStr ''events''),
                          (''properties'',
                             JList [JDict [(''type'', JStr ''event''),
                                           (''key'', JStr ''$current_url''),
                                           (''value'', JStr ''/pricing''),
                                           (''operator'', JStr ''exact'')]])]]\<rparr>)
       \<and> (dict_get (pl_filters p) ''filter_group'' = JDict fg
            \<and> dict_get fg ''values'' = JList (JDict grp # groups)
            \<and> dict_get grp ''values'' = JList [JDict f]
            \<and> duration_predicates en (pl_filters p) = Inr hp \<longrightarrow>
          fst (convert_filters_to_recordings_query en p w) =
            (if RecordingsQuery_ok en
                  \<lparr>rq_order = dict_get (pl_filters p) ''order'',
                   rq_date_from = dict_get (pl_filters p) ''date_from'',
                   rq_date_to = dict_get (pl_filters p) ''date_to'',
                   rq_properties = [],
                   rq_events =
                     [JDict [(''id'', JStr ''$pageview''),
                             (''name'', JStr ''$pageview''),
                             (''type'', JStr ''events''),
                             (''properties'',
                                JList [JDict [(''type'', JStr ''event''),
                                              (''key'', JStr ''$current_url''),
                                              (''value'', JStr ''/pricing''),
                                              (''operator'', JStr ''exact'')]])]],
                   rq_actions = [],
                   rq_console_log_filters = [],
                   rq_having_predicates = hp,
                   rq_filter_test_accounts = dict_get (pl_filters p) ''filter_test_accounts'',
                   rq_operand = dict_get_default fg ''type'' (JStr ''AND'')\<rparr>
             then Inr
                  \<lparr>rq_order = dict_get (pl_filters p) ''order'',
                   rq_date_from = dict_get (pl_filters p) ''date_from'',
                   rq_date_to = dict_get (pl_filters p) ''date_to'',
                   rq_properties = [],
                   rq_events =
                     [JDict [(''id'', JStr ''$pageview''),
                             (''name'', JStr ''$pageview''),
                             (''type'', JStr ''events''),
                             (''properties'',
                                JList [JDict [(''type'', JStr ''event''),
                                              (''key'', JStr ''$current_url''),
                                              (''value'', JStr ''/pricing''),
                                              (''operator'', JStr ''exact'')]])]],
                   rq_actions = [],
                   rq_console_log_filters = [],
                   rq_having_predicates = hp,
                   rq_filter_test_accounts = dict_get (pl_filters p) ''filter_test_accounts'',
                   rq_operand = dict_get_default fg ''type'' (JStr ''AND'')\<rparr>
             else Inl ValidationError))
       \<and> (dict_get (pl_filters p) ''filter_group'' = JDict fg
            \<and> dict_get fg ''values'' = JList (JDict grp # groups)
            \<and> dict_get grp ''values'' = JList (map JDict ds)
            \<and> f \<in> set ds
            \<and> duration_predicates en (pl_filters p) = Inr hp \<longrightarrow>
          (\<exists>q. fst (convert_filters_to_recordings_query en p w) =
                  (if RecordingsQuery_ok en q then Inr q else Inl ValidationError)
              \<and> JDict [(''id'', JStr ''$pageview''),
                        (''name'', JStr ''$pageview''),
                        (''type'', JStr ''events''),
                        (''properties'',
                           JList [JDict [(''type'', JStr ''event''),
                                         (''key'', JStr ''$current_url''),
                                         (''value'', JStr ''/pricing''),
                                         (''operator'', JStr ''exact'')]])]
                  \<in> set (rq_events q)
              \<and> JDict f \<notin> set (rq_properties q)))"
proof (intro conjI impI)
  show "process_filter (JDict f) acc =
           Inr (acc\<lparr>events := events acc @
                  [JDict [(''id'', JStr ''$pageview''),
                          (''name'', JStr ''$pageview''),
                          (''type'', JStr ''events''),
                          (''properties'',
                             JList [JDict [(''type'', JStr ''event''),
                                           (''key'', JStr ''$current_url''),
                                           (''value'', JStr ''/pricing''),
                                           (''operator'', JStr ''exact'')]])]]\<rparr>)"
    using assms by (simp add: pageview_event_def)
next
  assume h: "dict_get (pl_filters p) ''filter_group'' = JDict fg
            \<and> dict_get fg ''values'' = JList (JDict grp # groups)
            \<and> dict_get grp ''values'' = JList [JDict f]
            \<and> duration_predicates en (pl_filters p) = Inr hp"
  then have s3: "dict_get grp ''values'' = JList (map JDict [f])" by simp
  have v: "is_visited_page f" using assms by (simp add: is_visited_page_def)
  have e: "expected_query (pl_filters p) fg [f] hp =
             \<lparr>rq_order = dict_get (pl_filters p) ''order'',
              rq_date_from = dict_get (pl_filters p) ''date_from'',
              rq_date_to = dict_get (pl_filters p) ''date_to'',
              rq_properties = [],
              rq_events =
                [JDict [(''id'', JStr ''$pageview''),
                        (''name'', JStr ''$pageview''),
                        (''type'', JStr ''events''),
                        (''properties'',
                           JList [JDict [(''type'', JStr ''event''),
                                         (''key'', JStr ''$current_url''),
                                         (''value'', JStr ''/pricing''),
                                         (''operator'', JStr ''exact'')]])]],
              rq_actions = [],
              rq_console_log_filters = [],
              rq_having_predicates = hp,
              rq_filter_test_accounts = dict_get (pl_filters p) ''filter_test_accounts'',
              rq_operand = dict_get_default fg ''type'' (JStr ''AND'')\<rparr>"
    using assms v
    by (simp add: expected_query_def spec_events_def spec_actions_def spec_properties_def
          spec_console_log_filters_def spec_having_predicates_def is_snapshot_source_def
          pageview_event_def)
  from h s3 have c: "fst (convert_filters_to_recordings_query en p w) =
           (if RecordingsQuery_ok en (expected_query (pl_filters p) fg [f] hp)
            then Inr (expected_query (pl_filters p) fg [f] hp) else Inl ValidationError)"
    by (intro convert_document [of p fg grp groups "[f]" en hp w]) simp_all
  show "fst (convert_filters_to_recordings_query en p w) =
            (if RecordingsQuery_ok en
                  \<lparr>rq_order = dict_get (pl_filters p) ''order'',
                   rq_date_from = dict_get (pl_filters p) ''date_from'',
                   rq_date_to = dict_get (pl_filters p) ''date_to'',
                   rq_properties = [],
                   rq_events =
                     [JDict [(''id'', JStr ''$pageview''),
                             (''name'', JStr ''$pageview''),
                             (''type'', JStr ''events''),
                             (''properties'',
                                JList [JDict [(''type'', JStr ''event''),
                                              (''key'', JStr ''$current_url''),
                                              (''value'', JStr ''/pricing''),
                                              (''operator'', JStr ''exact'')]])]],
                   rq_actions = [],
                   rq_console_log_filters = [],
                   rq_having_predicates = hp,
                   rq_filter_test_accounts = dict_get (pl_filters p) ''filter_test_accounts'',
                   rq_operand = dict_get_default fg ''type'' (JStr ''AND'')\<rparr>
             then Inr
                  \<lparr>rq_order = dict_get (pl_filters p) ''order'',
                   rq_date_from = dict_get (pl_filters p) ''date_from'',
                   rq_date_to = dict_get (pl_filters p) ''date_to'',
                   rq_properties = [],
                   rq_events =
                     [JDict [(''id'', JStr ''$pageview''),
                             (''name'', JStr ''$pageview''),
                             (''type'', JStr ''events''),
                             (''properties'',
                                JList [JDict [(''type'', JStr ''event''),
                                              (''key'', JStr ''$current_url''),
                                              (''value'', JStr ''/pricing''),
                                              (''operator'', JStr ''exact'')]])]],
                   rq_actions = [],
                   rq_console_log_filters = [],
                   rq_having_predicates = hp,
                   rq_filter_test_accounts = dict_get (pl_filters p) ''filter_test_accounts'',
                   rq_operand = dict_get_default fg ''type'' (JStr ''AND'')\<rparr>
             else Inl ValidationError)"
    unfolding c e ..
next
  assume h: "dict_get (pl_filters p) ''filter_group'' = JDict fg
            \<and> dict_get fg ''values'' = JList (JDict grp # groups)
            \<and> dict_get grp ''values'' = JList (map JDict ds)
            \<and> f \<in> set ds
            \<and> duration_predicates en (pl_filters p) = Inr hp"
  have v: "is_visited_page f" using assms by (simp add: is_visited_page_def)
  have pv: "pageview_event f =
              JDict [(''id'', JStr ''$pageview''),
                     (''name'', JStr ''$pageview''),
                     (''type'', JStr ''events''),
                     (''properties'',
                        JList [JDict [(''type'', JStr ''event''),
                                      (''key'', JStr ''$current_url''),
                                      (''value'', JStr ''/pricing''),
                                      (''operator'', JStr ''exact'')]])]"
    using assms by (simp add: pageview_event_def)
  let ?q = "expected_query (pl_filters p) fg ds hp"
  from h have c: "fst (convert_filters_to_recordings_query en p w) =
           (if RecordingsQuery_ok en ?q then Inr ?q else Inl ValidationError)"
    by (intro convert_document [of p fg grp groups ds en hp w]) simp_all
  from h v have m1: "pageview_event f \<in> set (rq_events ?q)"
    by (simp add: expected_query_def spec_events_visited)
  from v have m2: "JDict f \<notin> set (rq_properties ?q)"
    by (simp add: expected_query_def spec_properties_set)
  from c m1 m2 show "\<exists>q. fst (convert_filters_to_recordings_query en p w) =
                  (if RecordingsQuery_ok en q then Inr q else Inl ValidationError)
              \<and> JDict [(''id'', JStr ''$pageview''),
                        (''name'', JStr ''$pageview''),
                        (''type'', JStr ''events''),
                        (''properties'',
                           JList [JDict [(''type'', JStr ''event''),
                                         (''key'', JStr ''$current_url''),
                                         (''value'', JStr ''/pricing''),
                                         (''operator'', JStr ''exact'')]])]
                  \<in> set (rq_events q)
              \<and> JDict f \<notin> set (rq_properties q)"
    unfolding pv by (intro exI [of _ ?q]) simp
qed

theorem visited_page_becomes_pageview_witness:
  "fst (convert_filters_to_recordings_query example_env
          (example_playlist (example_universal_filters [JDict visited_page_leaf]))
          (example_world [])) =
     Inr \<lparr>rq_order = JNull, rq_date_from = JStr ''-7d'', rq_date_to = JNull,
          rq_properties = [],
          rq_events =
            [JDict [(''id'', JStr ''$pageview''),
                    (''name'', JStr ''$pageview''),
                    (''type'', JStr ''events''),
                    (''properties'',
                       JList [JDict [(''type'', JStr ''event''),
                                     (''key'', JStr ''$current_url''),
                                     (''value'', JStr ''/pricing''),
                                     (''operator'', JStr ''exact'')]])]],
          rq_actions = [], rq_console_log_filters = [],
          rq_having_predicates =
            [RecordingPropertyFilter (JStr ''active_seconds'') (JStr ''gt'') (JInt 5)],
          rq_filter_test_accounts = JNull, rq_operand = JStr ''AND''\<rparr>
 \<and> (\<exists>q. fst (convert_filters_to_recordings_query example_env
               (example_playlist
                  (example_universal_filters [JDict person_leaf, JDict visited_page_leaf]))
               (example_world [])) = Inr q
      \<and> JDict [(''id'', JStr ''$pageview''),
                (''name'', JStr ''$pageview''),
                (''type'', JStr ''events''),
                (''properties'',
                   JList [JDict [(''type'', JStr ''event''),
                                 (''key'', JStr ''$current_url''),
                                 (''value'', JStr ''/pricing''),
                                 (''operator'', JStr ''exact'')]])] \<in> set (rq_events q)
      \<and> JDict visited_page_leaf \<notin> set (rq_properties q))"
proof -
  have f: "dict_get visited_page_leaf ''type'' = JStr ''recording''"
          "dict_get visited_page_leaf ''key'' = JStr ''visited_page''"
          "dict_get visited_page_leaf ''value'' = JStr ''/pricing''"
          "dict_get visited_page_leaf ''operator'' = JStr ''exact''"
    by (simp_all add: visited_page_leaf_def dict_get_def)
  have o: "dict_get (pl_filters (example_playlist (example_universal_filters leaves))) ''order'' = JNull"
          "dict_get (pl_filters (example_playlist (example_universal_filters leaves))) ''date_from'' = JStr ''-7d''"
          "dict_get (pl_filters (example_playlist (example_universal_filters leaves))) ''date_to'' = JNull"
          "dict_get (pl_filters (example_playlist (example_universal_filters leaves))) ''filter_test_accounts'' = JNull"
    for leaves
    by (simp_all add: example_playlist_def example_universal_filters_def dict_get_def)
  have m: "[JDict person_leaf, JDict visited_page_leaf] = map JDict [person_leaf, visited_page_leaf]"
    by simp
  note t1 = visited_page_becomes_pageview [OF f,
      where p = "example_playlist (example_universal_filters [JDict visited_page_leaf])"
        and fg = "[(''type'', JStr ''AND''),
                   (''values'', JList [JDict [(''type'', JStr ''AND''),
                                              (''values'', JList [JDict visited_page_leaf])]])]"
        and grp = "[(''type'', JStr ''AND''), (''values'', JList [JDict visited_page_leaf])]"
        and groups = "[]" and ds = "[visited_page_leaf]" and en = example_env
        and hp = "[RecordingPropertyFilter (JStr ''active_seconds'') (JStr ''gt'') (JInt 5)]"
        and w = "example_world []"]
  note t2 = visited_page_becomes_pageview [OF f,
      where p = "example_playlist
                   (example_universal_filters [JDict person_leaf, JDict visited_page_leaf])"
        and fg = "[(''type'', JStr ''AND''),
                   (''values'', JList [JDict [(''type'', JStr ''AND''),
                      (''values'', JList [JDict person_leaf, JDict visited_page_leaf])]])]"
        and grp = "[(''type'', JStr ''AND''),
                    (''values'', JList [JDict person_leaf, JDict visited_page_leaf])]"
        and groups = "[]" and ds = "[person_leaf, visited_page_leaf]" and en = example_env
        and hp = "[RecordingPropertyFilter (JStr ''active_seconds'') (JStr ''gt'') (JInt 5)]"
        and w = "example_world []"]
  from t1 have a: "fst (convert_filters_to_recordings_query example_env
          (example_playlist (example_universal_filters [JDict visited_page_leaf]))
          (example_world [])) =
     Inr \<lparr>rq_order = JNull, rq_date_from = JStr ''-7d'', rq_date_to = JNull,
          rq_properties = [],
          rq_events =
            [JDict [(''id'', JStr ''$pageview''),
                    (''name'', JStr ''$pageview''),
                    (''type'', JStr ''events''),
                    (''properties'',
                       JList [JDict [(''type'', JStr ''event''),
                                     (''key'', JStr ''$current_url''),
                                     (''value'', JStr ''/pricing''),
                                     (''operator'', JStr ''exact'')]])]],
          rq_actions = [], rq_console_log_filters = [],
          rq_having_predicates =
            [RecordingPropertyFilter (JStr ''active_seconds'') (JStr ''gt'') (JInt 5)],
          rq_filter_test_accounts = JNull, rq_operand = JStr ''AND''\<rparr>"
    by (simp add: example_document_shape example_document_duration example_env_accepts o
                  dict_get_default_def)
  from t2 have b: "\<exists>q. fst (convert_filters_to_recordings_query example_env
               (example_playlist
                  (example_universal_filters [JDict person_leaf, JDict visited_page_leaf]))
               (example_world [])) = Inr q
      \<and> JDict [(''id'', JStr ''$pageview''),
                (''name'', JStr ''$pageview''),
                (''type'', JStr ''events''),
                (''properties'',
                   JList [JDict [(''type'', JStr ''event''),
                                 (''key'', JStr ''$current_url''),
                                 (''value'', JStr ''/pricing''),
                                 (''operator'', JStr ''exact'')]])] \<in> set (rq_events q)
      \<and> JDict visited_page_leaf \<notin> set (rq_properties q)"
    by (simp add: example_document_shape example_document_duration example_env_accepts)
  from a b show ?thesis by blast
qed

text \<open>
  Claim C7. A leaf of type \<^verbatim>\<open>recording\<close> with key \<^verbatim>\<open>snapshot_source\<close> and a truthy
  value is appended to the having-predicates and the properties stay as they were. For a
  document whose first group holds this one leaf, the query the translator builds has the
  leaf as its last having-predicate and no property; among other dict leaves, the leaf is
  among the query's having-predicates and not among its properties.
\<close>

theorem snapshot_source_is_having_predicate:
  assumes "dict_get f ''type'' = JStr ''recording''"
      and "dict_get f ''key'' = JStr ''snapshot_source''"
      and "truthy (dict_get f ''value'')"
  shows "process_filter (JDict f) acc =
           Inr (acc\<lparr>having_predicates := having_predicates acc @ [RawFilter (JDict f)]\<rparr>)
       \<and> (dict_get (pl_filters p) ''filter_group'' = JDict fg
            \<and> dict_get fg ''values'' = JList (JDict grp # groups)
            \<and> dict_get grp ''values'' = JList [JDict f]
            \<and> duration_predicates en (pl_filters p) = Inr hp \<longrightarrow>
          (\<exists>q. fst (convert_filters_to_recordings_query en p w) =
                  (if RecordingsQuery_ok en q then Inr q else Inl ValidationError)
              \<and> rq_having_predicates q = hp @ [RawFilter (JDict f)]
              \<and> rq_properties q = []
              \<and> rq_events q = [] \<and> rq_actions q = [] \<and> rq_console_log_filters q = []))
       \<and> (dict_get (pl_filters p) ''filter_group'' = JDict fg
            \<and> dict_get fg ''values'' = JList (JDict grp # groups)
            \<and> dict_get grp ''values'' = JList (map JDict ds)
            \<and> f \<in> set ds
            \<and> duration_predicates en (pl_filters p) = Inr hp \<longrightarrow>
          (\<exists>q. fst (convert_filters_to_recordings_query en p w) =
                  (if RecordingsQuery_ok en q then Inr q else Inl ValidationError)
              \<and> RawFilter (JDict f) \<in> set (rq_having_predicates q)
              \<and> JDict f \<notin> set (rq_properties q)))"
proof (intro conjI impI)
  show "process_filter (JDict f) acc =
           Inr (acc\<lparr>having_predicates := having_predicates acc @ [RawFilter (JDict f)]\<rparr>)"
    using assms by simp
next
  assume h: "dict_get (pl_filters p) ''filter_group'' = JDict fg
            \<and> dict_get fg ''values'' = JList (JDict grp # groups)
            \<and> dict_get grp ''values'' = JList [JDict f]
            \<and> duration_predicates en (pl_filters p) = Inr hp"
  have s: "is_snapshot_source f" "\<not> is_visited_page f"
    using assms by (simp_all add: is_snapshot_source_def is_visited_page_def)
  let ?q = "expected_query (pl_filters p) fg [f] hp"
  from h have c: "fst (convert_filters_to_recordings_query en p w) =
           (if RecordingsQuery_ok en ?q then Inr ?q else Inl ValidationError)"
    by (intro convert_document [of p fg grp groups "[f]" en hp w]) simp_all
  have l: "rq_having_predicates ?q = hp @ [RawFilter (JDict f)]" "rq_properties ?q = []"
          "rq_events ?q = []" "rq_actions ?q = []" "rq_console_log_filters ?q = []"
    using assms s
    by (simp_all add: expected_query_def spec_events_def spec_actions_def spec_properties_def
          spec_console_log_filters_def spec_having_predicates_def)
  from c l show "\<exists>q. fst (convert_filters_to_recordings_query en p w) =
                  (if RecordingsQuery_ok en q then Inr q else Inl ValidationError)
              \<and> rq_having_predicates q = hp @ [RawFilter (JDict f)]
              \<and> rq_properties q = []
              \<and> rq_events q = [] \<and> rq_actions q = [] \<and> rq_console_log_filters q = []"
    by (intro exI [of _ ?q]) simp
next
  assume h: "dict_get (pl_filters p) ''filter_group'' = JDict fg
            \<and> dict_get fg ''values'' = JList (JDict grp # groups)
            \<and> dict_get grp ''values'' = JList (map JDict ds)
            \<and> f \<in> set ds
            \<and> duration_predicates en (pl_filters p) = Inr hp"
  have s: "is_snapshot_source f"
    using assms by (simp add: is_snapshot_source_def)
  let ?q = "expected_query (pl_filters p) fg ds hp"
  from h have c: "fst (convert_filters_to_recordings_query en p w) =
           (if RecordingsQuery_ok en ?q then Inr ?q else Inl ValidationError)"
    by (intro convert_document [of p fg grp groups ds en hp w]) simp_all
  from h s have m1: "RawFilter (JDict f) \<in> set (rq_having_predicates ?q)"
    by (simp add: expected_query_def spec_having_set)
  from s have m2: "JDict f \<notin> set (rq_properties ?q)"
    by (simp add: expected_query_def spec_properties_set)
  from c m1 m2 show "\<exists>q. fst (convert_filters_to_recordings_query en p w) =
                  (if RecordingsQuery_ok en q then Inr q else Inl ValidationError)
              \<and> RawFilter (JDict f) \<in> set (rq_having_predicates q)
              \<and> JDict f \<notin> set (rq_properties q)"
    by (intro exI [of _ ?q]) simp
qed

theorem snapshot_source_is_having_predicate_witness:
  "(\<exists>q. fst (convert_filters_to_recordings_query example_env
               (example_playlist (example_universal_filters [JDict snapshot_source_leaf]))
               (example_world [])) = Inr q
      \<and> rq_having_predicates q =
          [RecordingPropertyFilter (JStr ''active_seconds'') (JStr ''gt'') (JInt 5),
           RawFilter (JDict snapshot_source_leaf)]
      \<and> rq_properties q = [])
 \<and> (\<exists>q. fst (convert_filters_to_recordings_query example_env
               (example_playlist
                  (example_universal_filters [JDict person_leaf, JDict snapshot_source_leaf]))
               (example_world [])) = Inr q
      \<and> RawFilter (JDict snapshot_source_leaf) \<in> set (rq_having_predicates q)
      \<and> JDict snapshot_source_leaf \<notin> set (rq_properties q))"
proof -
  have f: "dict_get snapshot_source_leaf ''type'' = JStr ''recording''"
          "dict_get snapshot_source_leaf ''key'' = JStr ''snapshot_source''"
          "truthy (dict_get snapshot_source_leaf ''value'')"
    by (simp_all add: snapshot_source_leaf_def dict_get_def)
  note t1 = snapshot_source_is_having_predicate [OF f,
      where p = "example_playlist (example_universal_filters [JDict snapshot_source_leaf])"
        and fg = "[(''type'', JStr ''AND''),
                   (''values'', JList [JDict [(''type'', JStr ''AND''),
                      (''values'', JList [JDict snapshot_source_leaf])]])]"
        and grp = "[(''type'', JStr ''AND''), (''values'', JList [JDict snapshot_source_leaf])]"
        and groups = "[]" and ds = "[snapshot_source_leaf]" and en = example_env
        and hp = "[RecordingPropertyFilter (JStr ''active_seconds'') (JStr ''gt'') (JInt 5)]"
        and w = "example_world []"]
  from t1 have a: "\<exists>q. fst (convert_filters_to_recordings_query example_env
               (example_playlist (example_universal_filters [JDict snapshot_source_leaf]))
               (example_world [])) = Inr q
      \<and> rq_having_predicates q =
          [RecordingPropertyFilter (JStr ''active_seconds'') (JStr ''gt'') (JInt 5),
           RawFilter (JDict snapshot_source_leaf)]
      \<and> rq_properties q = []"
    by (auto simp: example_document_shape example_document_duration example_env_accepts)
  note t2 = snapshot_source_is_having_predicate [OF f,
      where p = "example_playlist
                   (example_universal_filters [JDict person_leaf, JDict snapshot_source_leaf])"
        and fg = "[(''type'', JStr ''AND''),
                   (''values'', JList [JDict [(''type'', JStr ''AND''),
                      (''values'', JList [JDict person_leaf, JDict snapshot_source_leaf])]])]"
        and grp = "[(''type'', JStr ''AND''),
                    (''values'', JList [JDict person_leaf, JDict snapshot_source_leaf])]"
        and groups = "[]" and ds = "[person_leaf, snapshot_source_leaf]" and en = example_env
        and hp = "[RecordingPropertyFilter (JStr ''active_seconds'') (JStr ''gt'') (JInt 5)]"
        and w = "example_world []"]
  from t2 have b: "\<exists>q. fst (convert_filters_to_recordings_query example_env
               (example_playlist
                  (example_universal_filters [JDict person_leaf, JDict snapshot_source_leaf]))
               (example_world [])) = Inr q
      \<and> RawFilter (JDict snapshot_source_leaf) \<in> set (rq_having_predicates q)
      \<and> JDict snapshot_source_leaf \<notin> set (rq_properties q)"
    by (simp add: example_document_shape example_document_duration example_env_accepts)
  from a b show ?thesis by blast
qed
















section \<open>Properties of the recomputation task\<close>

lemma total_seconds_int_le:
  assumes "d \<le> c * 1000000"
  shows "total_seconds_int d \<le> c"
proof (cases "0 \<le> d")
  case True
  from assms have "d div 1000000 \<le> (c * 1000000) div 1000000"
    by (rule zdiv_mono1) simp
  with True show ?thesis by (simp add: total_seconds_int_def)
next
  case False
  from assms have "- c * 1000000 \<le> - d" by simp
  then have "(- c * 1000000) div 1000000 \<le> (- d) div 1000000"
    by (rule zdiv_mono1) simp
  then have "- c \<le> (- d) div 1000000" by simp
  with False show ?thesis by (simp add: total_seconds_int_def)
qed

text \<open>
  Claim C9. When the cached record of the playlist has a \<^verbatim>\<open>refreshed_at\<close> within the
  cooldown of the clock's reading, the task counts a cooldown skip and returns: no query
  reaches the engine, and the cache, its expiry times and the playlist table are left as
  they were.
\<close>

theorem cooldown_skip:
  assumes "db w playlist_id = Some p"
      and "redis w (PLAYLIST_COUNT_REDIS_PREFIX en @ pl_short_id p) = Some (JDict cached)"
      and "truthy (dict_get cached ''refreshed_at'')"
      and "fromisoformat en (dict_get cached ''refreshed_at'') = Inr refreshed_at"
      and "clock w (clock_reads w) - refreshed_at
             \<le> PLAYLIST_COUNTER_PROCESSING_COOLDOWN_SECONDS en * 1000000"
  shows "count_recordings_that_match_playlist_filters en playlist_id w =
           inc ''replay_playlist_count_skipped{reason=cooldown}''
             (w\<lparr>clock_reads := Suc (clock_reads w)\<rparr>)
       \<and> engine_executions (count_recordings_that_match_playlist_filters en playlist_id w) =
           engine_executions w
       \<and> redis (count_recordings_that_match_playlist_filters en playlist_id w) = redis w
       \<and> redis_ttl (count_recordings_that_match_playlist_filters en playlist_id w) = redis_ttl w
       \<and> db (count_recordings_that_match_playlist_filters en playlist_id w) = db w
       \<and> metrics (count_recordings_that_match_playlist_filters en playlist_id w)
           ''replay_playlist_count_skipped{reason=cooldown}'' =
           Suc (metrics w ''replay_playlist_count_skipped{reason=cooldown}'')"
proof -
  have s: "total_seconds_int (clock w (clock_reads w) - refreshed_at)
             \<le> PLAYLIST_COUNTER_PROCESSING_COOLDOWN_SECONDS en"
    by (rule total_seconds_int_le [OF assms(5)])
  have c: "cooldown_check en (JDict cached) w = Inr (True, w\<lparr>clock_reads := Suc (clock_reads w)\<rparr>)"
    using assms(3,4) s by (simp add: cooldown_check_def read_clock_def)
  have b: "count_body en p w =
             (Inr (), p, None,
              inc ''replay_playlist_count_skipped{reason=cooldown}''
                (w\<lparr>clock_reads := Suc (clock_reads w)\<rparr>))"
    using assms(2) c by (simp add: count_body_def)
  have e: "count_recordings_that_match_playlist_filters en playlist_id w =
           inc ''replay_playlist_count_skipped{reason=cooldown}''
             (w\<lparr>clock_reads := Suc (clock_reads w)\<rparr>)"
    using assms(1) b by (simp add: count_recordings_that_match_playlist_filters_def)
  show ?thesis
    unfolding e by (simp add: inc_def)
qed

theorem cooldown_skip_witness:
  "count_recordings_that_match_playlist_filters example_env 1 cached_world =
     inc ''replay_playlist_count_skipped{reason=cooldown}'' (cached_world\<lparr>clock_reads := 1\<rparr>)
 \<and> engine_executions (count_recordings_that_match_playlist_filters example_env 1 cached_world) = []
 \<and> redis (count_recordings_that_match_playlist_filters example_env 1 cached_world) =
     redis cached_world"
proof -
  let ?p = "example_playlist (example_universal_filters [JDict visited_page_leaf])"
  let ?c = "[(''session_ids'', JList [JStr ''session-1'']),
             (''has_more'', JBool False),
             (''previous_ids'', JNull),
             (''refreshed_at'', JStr ''1970-01-01T00:00:00'')]"
  have h1: "db cached_world 1 = Some ?p"
    by (simp add: cached_world_def example_world_def)
  have h2: "redis cached_world (PLAYLIST_COUNT_REDIS_PREFIX example_env @ pl_short_id ?p) =
              Some (JDict ?c)"
    by (simp add: cached_world_def example_env_def example_playlist_def)
  have h3: "truthy (dict_get ?c ''refreshed_at'')"
    by (simp add: dict_get_def)
  have h4: "fromisoformat example_env (dict_get ?c ''refreshed_at'') = Inr 0"
    by (simp add: dict_get_def example_env_def)
  have h5: "clock cached_world (clock_reads cached_world) - 0
             \<le> PLAYLIST_COUNTER_PROCESSING_COOLDOWN_SECONDS example_env * 1000000"
    by (simp add: cached_world_def example_world_def example_env_def)
  have z: "clock_reads cached_world = 0" "engine_executions cached_world = []"
    by (simp_all add: cached_world_def example_world_def)
  from cooldown_skip [OF h1 h2 h3 h4 h5] z show ?thesis
    by (simp add: inc_def)
qed

section \<open>Properties of the revenue example query\<close>

text \<open>
  Claim C4. With no data-warehouse table configured (the list absent or empty),
  \<^verbatim>\<open>to_query\<close> returns \<^verbatim>\<open>SelectQuery.empty()\<close>; no path of it raises.
\<close>

theorem to_query_zero_tables:
  assumes "dataWarehouseTables tracking_config = None
         \<or> dataWarehouseTables tracking_config = Some []"
  shows "to_query tracking_config = SelectQuery_empty"
  using assms by (auto simp: to_query_def)

theorem to_query_zero_tables_witness:
  "to_query \<lparr>dataWarehouseTables = Some []\<rparr> = SelectQuery_empty
 \<and> to_query \<lparr>dataWarehouseTables = None\<rparr> = SelectQuery_empty"
  using to_query_zero_tables [of "\<lparr>dataWarehouseTables = Some []\<rparr>"]
        to_query_zero_tables [of "\<lparr>dataWarehouseTables = None\<rparr>"]
  by simp

text \<open>
  Claim C5. With two or more tables, \<^verbatim>\<open>to_query\<close> returns one set query over one
  select per table, in the order of the tables, with the set operator \<^verbatim>\<open>UNION ALL\<close>;
  each select projects the table's name as \<^verbatim>\<open>table_name\<close> and its revenue column as
  \<^verbatim>\<open>revenue\<close>, from the table, ordered descending by the table's timestamp column.
\<close>

theorem to_query_union_all:
  assumes "dataWarehouseTables tracking_config = Some tables"
      and "2 \<le> length tables"
  shows "\<exists>queries.
           to_query tracking_config = SelectSetQuery queries ''UNION ALL''
         \<and> length queries = length tables
         \<and> (\<forall>i < length tables.
               queries ! i =
                 \<lparr>select = [Alias ''table_name'' (Constant (tableName (tables ! i))),
                            Alias ''revenue''
                              (Field [tableName (tables ! i), revenueColumn (tables ! i)])],
                  select_from = JoinExpr (Field [tableName (tables ! i)]),
                  order_by = [OrderExpr
                                (Field [tableName (tables ! i), timestampColumn (tables ! i)])
                                ''DESC'']\<rparr>)"
proof -
  from assms have ne: "tables \<noteq> []" by auto
  with assms(1) have "to_query tracking_config = SelectSetQuery (map table_query tables) ''UNION ALL''"
    by (simp add: to_query_def create_from_queries_def)
  then show ?thesis
    by (simp add: table_query_def)
qed

theorem to_query_union_all_witness:
  "to_query \<lparr>dataWarehouseTables = Some example_tables\<rparr> =
     SelectSetQuery
       [\<lparr>select = [Alias ''table_name'' (Constant ''stripe_charges''),
                   Alias ''revenue'' (Field [''stripe_charges'', ''amount''])],
         select_from = JoinExpr (Field [''stripe_charges'']),
         order_by = [OrderExpr (Field [''stripe_charges'', ''created'']) ''DESC'']\<rparr>,
        \<lparr>select = [Alias ''table_name'' (Constant ''orders''),
                   Alias ''revenue'' (Field [''orders'', ''total''])],
         select_from = JoinExpr (Field [''orders'']),
         order_by = [OrderExpr (Field [''orders'', ''placed_at'']) ''DESC'']\<rparr>]
       ''UNION ALL''"
proof -
  have h1: "dataWarehouseTables \<lparr>dataWarehouseTables = Some example_tables\<rparr> = Some example_tables"
    by simp
  have h2: "2 \<le> length example_tables"
    by (simp add: example_tables_def)
  from to_query_union_all [OF h1 h2] obtain queries where
    q: "to_query \<lparr>dataWarehouseTables = Some example_tables\<rparr> = SelectSetQuery queries ''UNION ALL''"
    and l: "length queries = length example_tables"
    and e: "\<forall>i < length example_tables.
               queries ! i =
                 \<lparr>select = [Alias ''table_name'' (Constant (tableName (example_tables ! i))),
                            Alias ''revenue''
                              (Field [tableName (example_tables ! i), revenueColumn (example_tables ! i)])],
                  select_from = JoinExpr (Field [tableName (example_tables ! i)]),
                  order_by = [OrderExpr
                                (Field [tableName (example_tables ! i), timestampColumn (example_tables ! i)])
                                ''DESC'']\<rparr>"
    by blast
  from l have l2: "length queries = 2" by (simp add: example_tables_def)
  then obtain a b where ab: "queries = [a, b]"
    by (metis (no_types, opaque_lifting) One_nat_def Suc_1 length_0_conv length_Suc_conv)
  from e have "queries ! 0 = \<lparr>select = [Alias ''table_name'' (Constant ''stripe_charges''),
                   Alias ''revenue'' (Field [''stripe_charges'', ''amount''])],
         select_from = JoinExpr (Field [''stripe_charges'']),
         order_by = [OrderExpr (Field [''stripe_charges'', ''created'']) ''DESC'']\<rparr>"
    by (simp add: example_tables_def)
  moreover from e have "queries ! 1 = \<lparr>select = [Alias ''table_name'' (Constant ''orders''),
                   Alias ''revenue'' (Field [''orders'', ''total''])],
         select_from = JoinExpr (Field [''orders'']),
         order_by = [OrderExpr (Field [''orders'', ''placed_at'']) ''DESC'']\<rparr>"
    by (simp add: example_tables_def)
  ultimately show ?thesis using q ab by simp
qed

end
